theory Spec2Isabelle
  imports Complex_Main "HOL-Library.Word" "HOL-Library.Sublist"
begin

section \<open>JavaScript values\<close>

subsection \<open>Strings\<close>

text \<open>
  A JavaScript string is a sequence of UTF-16 code units, and \<open>trim\<close>, \<open>includes\<close> and
  the regular expression of the route work on code units. \<open>lit\<close> turns an ASCII literal
  of the source into its code units.
\<close>

type_synonym code_unit = "16 word"
type_synonym jsstring = "code_unit list"

definition lit :: "string \<Rightarrow> jsstring" where
  "lit s = map of_char s"

text \<open>
  The code units that \<open>String.prototype.trim\<close> removes and that \<open>\s\<close> matches: the
  WhiteSpace and LineTerminator productions of ECMAScript (TAB, LF, VT, FF, CR, SP, NBSP,
  U+1680, U+2000 to U+200A, U+2028, U+2029, U+202F, U+205F, U+3000, U+FEFF).
\<close>

definition is_space :: "code_unit \<Rightarrow> bool" where
  "is_space c = (c \<in> set [9, 10, 11, 12, 13, 32, 160, 5760,
      8192, 8193, 8194, 8195, 8196, 8197, 8198, 8199, 8200, 8201, 8202,
      8232, 8233, 8239, 8287, 12288, 65279])"

definition trim :: "jsstring \<Rightarrow> jsstring" where
  "trim s = rev (dropWhile is_space (rev (dropWhile is_space s)))"

text \<open>\<open>s.includes(pat)\<close>: \<open>pat\<close> occurs in \<open>s\<close> as a contiguous run of code units.\<close>

definition includes_str :: "jsstring \<Rightarrow> jsstring \<Rightarrow> bool" where
  "includes_str s pat = sublist pat s"

subsection \<open>Values read from JSON\<close>

text \<open>
  The request body, the research reply and the profile are whatever \<open>JSON.parse\<close>
  produced, so they are untyped values; \<open>JUndefined\<close> is what reading a missing property
  gives. A number is the rational value of the binary64 it stands for. An object is the list
  of its properties in order; a key's first binding is the property.
\<close>

datatype jsval =
    JUndefined
  | JNull
  | JBool bool
  | JNum rat
  | JStr jsstring
  | JArr "jsval list"
  | JObj "(jsstring \<times> jsval) list"

text \<open>ToBoolean, the test behind \<open>!x\<close>, \<open>if (x)\<close> and \<open>x || y\<close>.\<close>

fun truthy :: "jsval \<Rightarrow> bool" where
  "truthy JUndefined = False"
| "truthy JNull = False"
| "truthy (JBool b) = b"
| "truthy (JNum r) = (r \<noteq> 0)"
| "truthy (JStr s) = (s \<noteq> [])"
| "truthy (JArr xs) = True"
| "truthy (JObj ps) = True"

text \<open>
  What a \<open>throw\<close> carries: an \<open>Error\<close> (or a subclass: TypeError, SyntaxError, AxiosError)
  with its \<open>message\<close>, or any other value, for which \<open>instanceof Error\<close> is false.
\<close>

datatype thrown = JsError jsstring | JsThrown jsval

text \<open>
  The message of the TypeError that reading the property \<open>k\<close> of \<open>undefined\<close> or of
  \<open>null\<close> raises, in V8's wording: \<open>Cannot read properties of undefined (reading 'k')\<close>
  (the code unit 39 is the single quote); and the message of calling a member that is not
  a function, which names the callee as the source writes it.
\<close>

definition cannot_read :: "jsstring \<Rightarrow> jsstring \<Rightarrow> jsstring" where
  "cannot_read base k =
     lit ''Cannot read properties of '' @ base @ lit '' (reading '' @ [39] @ k @ [39] @ lit '')''"

definition not_a_function :: jsstring where
  "not_a_function = lit ''assistantMessage.replace is not a function''"

text \<open>
  \<open>o.k\<close> for the property names the route reads (\<open>company_name\<close>, \<open>company_data\<close>,
  \<open>metrics\<close>, \<open>business_model\<close>, \<open>context\<close>, \<open>analysis_points\<close>, \<open>choices\<close>,
  \<open>message\<close>, \<open>content\<close>): none of them is an index, \<open>length\<close> or a member of a
  built-in prototype, so only an object can hold one.
\<close>

fun get_prop :: "jsval \<Rightarrow> jsstring \<Rightarrow> thrown + jsval" where
  "get_prop JUndefined k = Inl (JsError (cannot_read (lit ''undefined'') k))"
| "get_prop JNull k = Inl (JsError (cannot_read (lit ''null'') k))"
| "get_prop (JObj ps) k = Inr (case map_of ps k of Some v \<Rightarrow> v | None \<Rightarrow> JUndefined)"
| "get_prop v k = Inr JUndefined"

text \<open>Decimal digits of a natural number: the name of an array index, and the digits of an amount.\<close>

fun decimal :: "nat \<Rightarrow> jsstring" where
  "decimal n = (if n < 10 then [of_nat (48 + n)] else decimal (n div 10) @ [of_nat (48 + n mod 10)])"

declare decimal.simps [simp del]

text \<open>\<open>o[0]\<close>: the first element of an array, the first code unit of a string, the property \<open>"0"\<close> of an object.\<close>

fun get_index0 :: "jsval \<Rightarrow> thrown + jsval" where
  "get_index0 JUndefined = Inl (JsError (cannot_read (lit ''undefined'') (lit ''0'')))"
| "get_index0 JNull = Inl (JsError (cannot_read (lit ''null'') (lit ''0'')))"
| "get_index0 (JArr xs) = Inr (case xs of [] \<Rightarrow> JUndefined | x # _ \<Rightarrow> x)"
| "get_index0 (JStr s) = Inr (case s of [] \<Rightarrow> JUndefined | c # _ \<Rightarrow> JStr [c])"
| "get_index0 (JObj ps) = Inr (case map_of ps (lit ''0'') of Some v \<Rightarrow> v | None \<Rightarrow> JUndefined)"
| "get_index0 v = Inr JUndefined"

text \<open>
  The own enumerable properties that a spread \<open>...b\<close> copies: those of an object, the
  elements of an array and the code units of a string under their indices, and nothing for
  \<open>undefined\<close>, \<open>null\<close>, a boolean or a number.
\<close>

fun own_props :: "jsval \<Rightarrow> (jsstring \<times> jsval) list" where
  "own_props (JObj ps) = ps"
| "own_props (JArr xs) = zip (map decimal [0..<length xs]) xs"
| "own_props (JStr s) = zip (map decimal [0..<length s]) (map (\<lambda>c. JStr [c]) s)"
| "own_props v = []"

text \<open>
  \<open>{...a, ...b}\<close> on property lists: the keys of \<open>a\<close> stay in place, with the value \<open>b\<close>
  gives where it has the key, and the keys only \<open>b\<close> has follow in the order of \<open>b\<close>.
  (JavaScript lists index-like keys first; that order only shows in serialised text.)
\<close>

definition spread :: "(jsstring \<times> 'a) list \<Rightarrow> (jsstring \<times> 'a) list \<Rightarrow> (jsstring \<times> 'a) list" where
  "spread a b =
     map (\<lambda>(k, v). (k, case map_of b k of Some v' \<Rightarrow> v' | None \<Rightarrow> v)) a
     @ filter (\<lambda>(k, v). map_of a k = None) b"

text \<open>\<open>o.k\<close> where \<open>o\<close> is known not to be \<open>undefined\<close> or \<open>null\<close>.\<close>

definition field :: "jsval \<Rightarrow> jsstring \<Rightarrow> jsval" where
  "field v k = (case get_prop v k of Inr x \<Rightarrow> x | Inl e \<Rightarrow> JUndefined)"

section \<open>The world outside the route\<close>

text \<open>
  The arguments of \<open>generateText\<close>: model name, the one user message, \<open>maxTokens\<close> and
  \<open>temperature\<close>.
\<close>

record gen_request =
  model :: jsstring
  prompt :: jsstring
  maxTokens :: nat
  temperature :: rat

text \<open>
  Everything the route reaches outside its own file, as functions of what it passes:
  the environment variable, \<open>axios.post\<close> (giving \<open>response.data\<close> or throwing),
  \<open>generateText\<close> (giving \<open>text\<close> or throwing), the remark pipeline, and the built-ins
  \<open>JSON.parse\<close> (\<open>None\<close> is its SyntaxError), \<open>JSON.stringify\<close> and the conversion of a
  non-string value inside a template literal (which throws for an object whose own
  \<open>toString\<close> is not callable).
\<close>

record env =
  PERPLEXITY_API_KEY :: "jsstring option"
  axios_post :: "jsstring \<Rightarrow> jsval \<Rightarrow> jsval \<Rightarrow> thrown + jsval"
  generateText :: "gen_request \<Rightarrow> thrown + jsstring"
  remark_html :: "jsstring \<Rightarrow> thrown + jsstring"
  JSON_parse :: "jsstring \<Rightarrow> jsval option"
  JSON_stringify :: "jsval \<Rightarrow> jsstring"
  ToString_other :: "jsval \<Rightarrow> thrown + jsstring"

text \<open>The story object: the five keys of \<open>story_template\<close>.\<close>

record story =
  headline :: jsval
  context' :: jsval
  metrics :: jsval
  business_model :: jsval
  analysis_points :: jsval

text \<open>
  What the route did to the outside, in order: the research request, each text generation,
  each entry into \<open>format_story\<close> with the story it was given, each run of the markdown
  transform.
\<close>

datatype event =
    Axios_post jsstring jsval jsval
  | GenerateText gen_request
  | Format_story story
  | Remark_process jsstring

text \<open>
  An awaited computation: what it returned or threw, and the events it caused.
  \<open>bind\<close> is sequencing: an exception skips the rest, the events add up.
\<close>

type_synonym 'a eff = "(thrown + 'a) \<times> event list"

definition ret :: "'a \<Rightarrow> 'a eff" where
  "ret x = (Inr x, [])"

definition throw :: "thrown \<Rightarrow> 'a eff" where
  "throw e = (Inl e, [])"

definition lift :: "thrown + 'a \<Rightarrow> 'a eff" where
  "lift r = (r, [])"

definition call :: "event \<Rightarrow> thrown + 'a \<Rightarrow> 'a eff" where
  "call ev r = (r, [ev])"

definition bind :: "'a eff \<Rightarrow> ('a \<Rightarrow> 'b eff) \<Rightarrow> 'b eff" where
  "bind m f =
     (case m of
        (Inl e, l) \<Rightarrow> (Inl e, l)
      | (Inr x, l) \<Rightarrow> (case f x of (r, l') \<Rightarrow> (r, l @ l')))"

text \<open>\<open>${v}\<close> inside a template literal.\<close>

definition ToString :: "env \<Rightarrow> jsval \<Rightarrow> thrown + jsstring" where
  "ToString env v =
     (case v of
        JStr s \<Rightarrow> Inr s
      | JUndefined \<Rightarrow> Inr (lit ''undefined'')
      | JNull \<Rightarrow> Inr (lit ''null'')
      | JBool b \<Rightarrow> Inr (if b then lit ''true'' else lit ''false'')
      | _ \<Rightarrow> ToString_other env v)"

section \<open>The class NewsletterResearchBot\<close>

record bot =
  story_template :: story

text \<open>The constructor (lines 31 to 53).\<close>

definition new_bot :: bot where
  "new_bot = \<lparr>story_template = \<lparr>
     headline = JNull,
     context' = JObj [(lit ''market_size'', JNull), (lit ''key_players'', JArr []),
                     (lit ''recent_developments'', JArr [])],
     metrics = JObj [(lit ''revenue'', JNull), (lit ''funding'', JNull),
                     (lit ''market_share'', JNull), (lit ''growth_rate'', JNull)],
     business_model = JObj [(lit ''core_offering'', JNull), (lit ''unit_economics'', JNull),
                            (lit ''channels'', JArr []), (lit ''partnerships'', JArr [])],
     analysis_points = JArr []\<rparr>\<rparr>"

text \<open>\<open>generate_hook\<close> (lines 90 to 99).\<close>

definition hook_request :: "jsstring \<Rightarrow> gen_request" where
  "hook_request name = \<lparr>
     model = lit ''gpt-4o-mini'',
     prompt = lit ''Create an engaging headline for a newsletter about '' @ name
       @ lit '', highlighting its innovative business model and recent growth. Include a sense of excitement.'',
     maxTokens = 20,
     temperature = 8 / 10\<rparr>"

definition generate_hook :: "env \<Rightarrow> jsval \<Rightarrow> jsstring eff" where
  "generate_hook env company_name =
     bind (lift (ToString env company_name)) (\<lambda>name.
     bind (call (GenerateText (hook_request name)) (generateText env (hook_request name))) (\<lambda>text.
     ret (trim text)))"

text \<open>
  \<open>research_company\<close> (lines 55 to 88): the story is the template with the headline set
  and each of \<open>metrics\<close>, \<open>business_model\<close>, \<open>context\<close> spread over the template's.
\<close>

definition research_company :: "env \<Rightarrow> bot \<Rightarrow> jsval \<Rightarrow> jsval \<Rightarrow> story eff" where
  "research_company env this company_name company_data =
     (let story = story_template this in
      bind (generate_hook env company_name) (\<lambda>h.
      bind (lift (get_prop company_data (lit ''metrics''))) (\<lambda>m.
      bind (lift (get_prop company_data (lit ''business_model''))) (\<lambda>b.
      bind (lift (get_prop company_data (lit ''context''))) (\<lambda>c.
      bind (lift (get_prop company_data (lit ''analysis_points''))) (\<lambda>a.
      ret (story\<lparr>
        headline := JStr h,
        metrics := JObj (spread (own_props (metrics story)) (own_props m)),
        business_model := JObj (spread (own_props (business_model story)) (own_props b)),
        context' := JObj (spread (own_props (context' story)) (own_props c)),
        analysis_points := (if truthy a then a else JArr [])\<rparr>)))))))"

text \<open>\<open>format_story\<close> (lines 101 to 140).\<close>

definition story_request :: "jsstring \<Rightarrow> jsstring \<Rightarrow> jsstring \<Rightarrow> jsstring \<Rightarrow> jsstring \<Rightarrow> gen_request" where
  "story_request h c m b a = \<lparr>
     model = lit ''gpt-4o-mini'',
     prompt = lit ''Write a compelling newsletter research document about the company based on the following details:''
       @ [10, 10] @ lit ''Headline: '' @ h
       @ [10] @ lit ''Context: '' @ c
       @ [10] @ lit ''Metrics: '' @ m
       @ [10] @ lit ''Business Model: '' @ b
       @ [10] @ lit ''Analysis Points: '' @ a
       @ [10, 10] @ lit ''Structure the story into sections like Context, Business Model, Metrics, and Insights.'',
     maxTokens = 10000,
     temperature = 7 / 10\<rparr>"

definition format_story :: "env \<Rightarrow> story \<Rightarrow> jsstring eff" where
  "format_story env story_data =
     bind (call (Format_story story_data) (ToString env (headline story_data))) (\<lambda>h.
     (let req = story_request h
                  (JSON_stringify env (context' story_data))
                  (JSON_stringify env (metrics story_data))
                  (JSON_stringify env (business_model story_data))
                  (JSON_stringify env (analysis_points story_data)) in
      bind (call (GenerateText req) (generateText env req)) (\<lambda>text.
      ret (trim text))))"

section \<open>Acquisition from the research service\<close>

text \<open>
  \<open>s.replace(/(^```(?:json)?\s*|```$)/g, "")\<close> (line 191); the code unit 96 is the
  backquote. Without the \<open>m\<close> flag \<open>^\<close> is the start and \<open>$\<close> the end of the whole text.
  The first alternative can match only at the start, where it takes the three backquotes,
  \<open>json\<close> if it follows, and all white space after that; the search then goes on in the
  rest, where the second alternative matches once: three backquotes that end the text.
\<close>

definition fence :: jsstring where
  "fence = [96, 96, 96]"

definition strip_code_fences :: "jsstring \<Rightarrow> jsstring" where
  "strip_code_fences s =
     (let rest =
        (if prefix fence s then
           (let a = drop 3 s;
                b = (if prefix (lit ''json'') a then drop 4 a else a)
            in dropWhile is_space b)
         else s)
      in if suffix fence rest then take (length rest - 3) rest else rest)"

definition perplexity_url :: jsstring where
  "perplexity_url = lit ''https://api.perplexity.ai/chat/completions''"

definition perplexity_data :: "jsstring \<Rightarrow> jsval" where
  "perplexity_data name = JObj [
     (lit ''model'', JStr (lit ''llama-3.1-sonar-small-128k-online'')),
     (lit ''messages'', JArr [
        JObj [(lit ''role'', JStr (lit ''system'')),
              (lit ''content'', JStr (lit ''You are a helpful assistant that provides accurate information about companies.''))],
        JObj [(lit ''role'', JStr (lit ''user'')),
              (lit ''content'', JStr (lit ''Research the company '' @ name
                 @ lit '' and provide information about its business model, metrics (if available), market context, and key analysis points. Format the response strictly as a JSON object with keys: business_model, metrics, context, and analysis_points. Do not include any explanations, code fences, or additional formatting. Provide only the JSON object.''))]])]"

definition perplexity_config :: "jsstring \<Rightarrow> jsval" where
  "perplexity_config key = JObj [
     (lit ''headers'', JObj [
        (lit ''Authorization'', JStr (lit ''Bearer '' @ key)),
        (lit ''Content-Type'', JStr (lit ''application/json''))])]"

text \<open>
  \<open>assistantMessage.replace(...).trim()\<close> (lines 190 to 192): only a string has
  \<open>replace\<close>; \<open>undefined\<close> and \<open>null\<close> have no properties, and on any other value read
  from JSON \<open>replace\<close> is not a function.
\<close>

definition clean_message :: "jsval \<Rightarrow> thrown + jsstring" where
  "clean_message content =
     (case content of
        JStr s \<Rightarrow> Inr (trim (strip_code_fences s))
      | JUndefined \<Rightarrow> Inl (JsError (cannot_read (lit ''undefined'') (lit ''replace'')))
      | JNull \<Rightarrow> Inl (JsError (cannot_read (lit ''null'') (lit ''replace'')))
      | _ \<Rightarrow> Inl (JsError not_a_function))"

text \<open>\<open>response.data.choices[0].message.content\<close> (line 188).\<close>

definition message_content :: "jsval \<Rightarrow> thrown + jsval" where
  "message_content data =
     (case get_prop data (lit ''choices'') of
        Inl e \<Rightarrow> Inl e
      | Inr choices \<Rightarrow>
          (case get_index0 choices of
             Inl e \<Rightarrow> Inl e
           | Inr choice \<Rightarrow>
               (case get_prop choice (lit ''message'') of
                  Inl e \<Rightarrow> Inl e
                | Inr message \<Rightarrow> get_prop message (lit ''content''))))"

text \<open>\<open>researchCompanyWithPerplexity\<close> (lines 158 to 202).\<close>

definition researchCompanyWithPerplexity :: "env \<Rightarrow> jsval \<Rightarrow> jsval eff" where
  "researchCompanyWithPerplexity env company_name =
     (case PERPLEXITY_API_KEY env of
        None \<Rightarrow> throw (JsError (lit ''Perplexity API key is not set''))
      | Some key \<Rightarrow>
          if key = [] then throw (JsError (lit ''Perplexity API key is not set''))
          else
            bind (lift (ToString env company_name)) (\<lambda>name.
            bind (call (Axios_post perplexity_url (perplexity_data name) (perplexity_config key))
                       (axios_post env perplexity_url (perplexity_data name) (perplexity_config key))) (\<lambda>data.
            bind (lift (message_content data)) (\<lambda>content.
            bind (lift (clean_message content)) (\<lambda>assistantMessage.
            (case JSON_parse env assistantMessage of
               None \<Rightarrow> throw (JsError (lit ''Failed to parse JSON response from Perplexity''))
             | Some researchData \<Rightarrow> ret researchData))))))"

text \<open>\<open>markdownToHtml\<close> (lines 204 to 207).\<close>

definition markdownToHtml :: "env \<Rightarrow> jsstring \<Rightarrow> jsstring eff" where
  "markdownToHtml env markdown = call (Remark_process markdown) (remark_html env markdown)"

section \<open>The handler POST\<close>

record response =
  status :: nat
  body :: jsval

text \<open>\<open>NextResponse.json(body)\<close> answers 200 unless a status is given.\<close>

definition NextResponse_json :: "jsval \<Rightarrow> nat \<Rightarrow> response" where
  "NextResponse_json b st = \<lparr>status = st, body = b\<rparr>"

text \<open>
  Lines 214 to 227: \<open>research_data\<close> and \<open>rawApiResponse\<close> after the acquisition
  phase. The inner \<open>catch\<close> turns whatever the research function threw into text and
  leaves \<open>research_data\<close> as it was.
\<close>

definition acquire :: "env \<Rightarrow> jsval \<Rightarrow> jsval \<Rightarrow> (jsval \<times> jsval) \<times> event list" where
  "acquire env company_name company_data =
     (if \<not> truthy company_data then
        (case researchCompanyWithPerplexity env company_name of
           (Inr d, l) \<Rightarrow> ((d, JNull), l)
         | (Inl (JsError m), l) \<Rightarrow> ((company_data, JStr m), l)
         | (Inl (JsThrown v), l) \<Rightarrow> ((company_data, JStr (lit ''An unknown error occurred'')), l))
      else ((company_data, JNull), []))"

text \<open>
  Lines 233 to 265: the story text. With research data the bot writes the story, and an
  empty headline stops it before \<open>format_story\<close> (the source makes the test twice);
  without, the text stays empty.
\<close>

definition write_story :: "env \<Rightarrow> bot \<Rightarrow> jsval \<Rightarrow> jsval \<Rightarrow> jsstring eff" where
  "write_story env this company_name research_data =
     (if truthy research_data then
        bind (research_company env this company_name research_data) (\<lambda>story.
        if \<not> truthy (headline story) then throw (JsError (lit ''Generated headline is null''))
        else if \<not> truthy (headline story) then throw (JsError (lit ''Generated headline is null''))
        else format_story env story)
      else ret [])"

text \<open>Lines 267 to 281: the markdown test, the rendering and the response.\<close>

definition render_response :: "env \<Rightarrow> jsstring \<Rightarrow> jsval \<Rightarrow> response eff" where
  "render_response env formatted_story rawApiResponse =
     (let isMarkdown = (includes_str formatted_story (lit ''##'') \<or> includes_str formatted_story (lit ''*'')) in
      bind (if isMarkdown then markdownToHtml env formatted_story else ret []) (\<lambda>htmlContent.
      ret (NextResponse_json (JObj [
             (lit ''story'', JStr formatted_story),
             (lit ''htmlContent'', JStr htmlContent),
             (lit ''isMarkdown'', JBool isMarkdown),
             (lit ''rawApiResponse'', rawApiResponse)]) 200)))"

text \<open>
  The body of the outer \<open>try\<close> (lines 211 to 281); the argument is what \<open>req.json()\<close>
  gave. Destructuring reads the two properties, and throws on \<open>null\<close>.
\<close>

definition POST_try :: "env \<Rightarrow> thrown + jsval \<Rightarrow> response eff" where
  "POST_try env req_json =
     bind (lift req_json) (\<lambda>payload.
     bind (lift (get_prop payload (lit ''company_name''))) (\<lambda>company_name.
     bind (lift (get_prop payload (lit ''company_data''))) (\<lambda>company_data.
     (let this = new_bot in
      bind (case acquire env company_name company_data of (x, l) \<Rightarrow> (Inr x, l)) (\<lambda>(research_data, rawApiResponse).
      if \<not> truthy research_data \<and> \<not> truthy rawApiResponse
      then throw (JsError (lit ''Failed to fetch company data''))
      else
        bind (write_story env this company_name research_data) (\<lambda>formatted_story.
        render_response env formatted_story rawApiResponse))))))"

text \<open>The handler with its catch-all (lines 209 to 289).\<close>

definition failure_response :: response where
  "failure_response =
     NextResponse_json (JObj [(lit ''error'', JStr (lit ''Failed to generate newsletter''))]) 500"

definition POST :: "env \<Rightarrow> thrown + jsval \<Rightarrow> response \<times> event list" where
  "POST env req_json =
     (case POST_try env req_json of
        (Inr resp, l) \<Rightarrow> (resp, l)
      | (Inl e, l) \<Rightarrow> (failure_response, l))"

section \<open>The bot's objects in a store\<close>

text \<open>
  \<open>story_template\<close> and the objects and arrays nested in it are shared by reference:
  the shallow copy \<open>{...this.story_template}\<close> copies the references, not the nested
  objects. To say what a call leaves untouched, the objects the class creates live in a
  store (the address of an object is its index, and allocation appends). A property holds
  either data read from JSON, which the route only reads, or a reference into the store.
\<close>

type_synonym addr = nat

datatype slot = Data jsval | Ref addr

datatype heap_obj = HObj "(jsstring \<times> slot) list" | HArr "slot list"

type_synonym store = "heap_obj list"

definition lookup :: "store \<Rightarrow> addr \<Rightarrow> heap_obj" where
  "lookup s a = (if a < length s then s ! a else HObj [])"

definition alloc :: "heap_obj \<Rightarrow> store \<Rightarrow> addr \<times> store" where
  "alloc ob s = (length s, s @ [ob])"

text \<open>\<open>o.k = v\<close> on the object at an address: the key keeps its place, a new key goes last.\<close>

definition set_prop :: "(jsstring \<times> slot) list \<Rightarrow> jsstring \<Rightarrow> slot \<Rightarrow> (jsstring \<times> slot) list" where
  "set_prop ps k v =
     (if map_of ps k = None then ps @ [(k, v)]
      else map (\<lambda>(k', v'). if k' = k then (k', v) else (k', v')) ps)"

definition assign :: "addr \<Rightarrow> jsstring \<Rightarrow> slot \<Rightarrow> store \<Rightarrow> store" where
  "assign a k v s =
     (if a < length s then
        (case s ! a of
           HObj ps \<Rightarrow> s[a := HObj (set_prop ps k v)]
         | HArr xs \<Rightarrow> s)
      else s)"

text \<open>\<open>o.k\<close> and the own properties of \<open>o\<close>, for a property value \<open>o\<close>.\<close>

definition read :: "store \<Rightarrow> slot \<Rightarrow> jsstring \<Rightarrow> slot" where
  "read s ob k =
     (case ob of
        Data v \<Rightarrow> Data (field v k)
      | Ref a \<Rightarrow>
          (case lookup s a of
             HObj ps \<Rightarrow> (case map_of ps k of Some v \<Rightarrow> v | None \<Rightarrow> Data JUndefined)
           | HArr xs \<Rightarrow> Data JUndefined))"

definition slot_props :: "store \<Rightarrow> slot \<Rightarrow> (jsstring \<times> slot) list" where
  "slot_props s ob =
     (case ob of
        Data v \<Rightarrow> map (\<lambda>(k, x). (k, Data x)) (own_props v)
      | Ref a \<Rightarrow>
          (case lookup s a of
             HObj ps \<Rightarrow> ps
           | HArr xs \<Rightarrow> zip (map decimal [0..<length xs]) xs))"

text \<open>
  \<open>new NewsletterResearchBot()\<close> (lines 31 to 53): the new object, the object literal
  with its nested objects and arrays, and the assignment to \<open>this.story_template\<close>.
\<close>

definition new_bot_st :: "store \<Rightarrow> addr \<times> store" where
  "new_bot_st s0 =
     (let (this, s1) = alloc (HObj []) s0;
          (key_players, s2) = alloc (HArr []) s1;
          (recent_developments, s3) = alloc (HArr []) s2;
          (ctx, s4) = alloc (HObj [(lit ''market_size'', Data JNull),
                                   (lit ''key_players'', Ref key_players),
                                   (lit ''recent_developments'', Ref recent_developments)]) s3;
          (met, s5) = alloc (HObj [(lit ''revenue'', Data JNull), (lit ''funding'', Data JNull),
                                   (lit ''market_share'', Data JNull),
                                   (lit ''growth_rate'', Data JNull)]) s4;
          (channels, s6) = alloc (HArr []) s5;
          (partnerships, s7) = alloc (HArr []) s6;
          (bm, s8) = alloc (HObj [(lit ''core_offering'', Data JNull),
                                  (lit ''unit_economics'', Data JNull),
                                  (lit ''channels'', Ref channels),
                                  (lit ''partnerships'', Ref partnerships)]) s7;
          (points, s9) = alloc (HArr []) s8;
          (template, s10) = alloc (HObj [(lit ''headline'', Data JNull),
                                        (lit ''context'', Ref ctx),
                                        (lit ''metrics'', Ref met),
                                        (lit ''business_model'', Ref bm),
                                        (lit ''analysis_points'', Ref points)]) s9
      in (this, assign this (lit ''story_template'') (Ref template) s10))"

text \<open>The ten objects the constructor makes, for a bot that gets the address \<open>n\<close>.\<close>

definition bot_objects :: "addr \<Rightarrow> store" where
  "bot_objects n =
     [HObj [(lit ''story_template'', Ref (n + 9))],
      HArr [], HArr [],
      HObj [(lit ''market_size'', Data JNull), (lit ''key_players'', Ref (n + 1)),
            (lit ''recent_developments'', Ref (n + 2))],
      HObj [(lit ''revenue'', Data JNull), (lit ''funding'', Data JNull),
            (lit ''market_share'', Data JNull), (lit ''growth_rate'', Data JNull)],
      HArr [], HArr [],
      HObj [(lit ''core_offering'', Data JNull), (lit ''unit_economics'', Data JNull),
            (lit ''channels'', Ref (n + 5)), (lit ''partnerships'', Ref (n + 6))],
      HArr [],
      HObj [(lit ''headline'', Data JNull), (lit ''context'', Ref (n + 3)),
            (lit ''metrics'', Ref (n + 4)), (lit ''business_model'', Ref (n + 7)),
            (lit ''analysis_points'', Ref (n + 8))]]"

text \<open>
  \<open>story.k = {...story.k, ...v}\<close> (lines 80 to 85): a new object holds the merge, and
  the story's property is set to refer to it. The object the property referred to before
  is read, not written.
\<close>

definition merge_into :: "addr \<Rightarrow> jsstring \<Rightarrow> jsval \<Rightarrow> store \<Rightarrow> store" where
  "merge_into story k v s =
     (let (merged, s1) = alloc (HObj (spread (slot_props s (read s (Ref story) k))
                                             (slot_props s (Data v)))) s
      in assign story k (Ref merged) s1)"

text \<open>
  \<open>research_company\<close> (lines 78 to 87) on the store: the copy is a new object with the
  template's properties, every assignment is to the copy, and \<open>[]\<close> makes a new array.
  What is returned is the copy's address (or what was thrown), the events, and the store.
\<close>

definition research_company_st ::
    "env \<Rightarrow> addr \<Rightarrow> jsval \<Rightarrow> jsval \<Rightarrow> store \<Rightarrow> addr eff \<times> store" where
  "research_company_st env this company_name company_data s =
     (let (story, s1) = alloc (HObj (slot_props s (read s (Ref this) (lit ''story_template'')))) s in
      case generate_hook env company_name of
        (Inl e, l) \<Rightarrow> ((Inl e, l), s1)
      | (Inr h, l) \<Rightarrow>
          (let s2 = assign story (lit ''headline'') (Data (JStr h)) s1 in
           case get_prop company_data (lit ''metrics'') of
             Inl e \<Rightarrow> ((Inl e, l), s2)
           | Inr m \<Rightarrow>
               (let s3 = merge_into story (lit ''metrics'') m s2 in
                case get_prop company_data (lit ''business_model'') of
                  Inl e \<Rightarrow> ((Inl e, l), s3)
                | Inr b \<Rightarrow>
                    (let s4 = merge_into story (lit ''business_model'') b s3 in
                     case get_prop company_data (lit ''context'') of
                       Inl e \<Rightarrow> ((Inl e, l), s4)
                     | Inr c \<Rightarrow>
                         (let s5 = merge_into story (lit ''context'') c s4 in
                          case get_prop company_data (lit ''analysis_points'') of
                            Inl e \<Rightarrow> ((Inl e, l), s5)
                          | Inr a \<Rightarrow>
                              if truthy a
                              then ((Inr story, l), assign story (lit ''analysis_points'') (Data a) s5)
                              else (let (fresh, s6) = alloc (HArr []) s5
                                    in ((Inr story, l), assign story (lit ''analysis_points'') (Ref fresh) s6)))))))"

text \<open>Any number of calls on one bot, one after the other.\<close>

fun calls :: "env \<Rightarrow> addr \<Rightarrow> (jsval \<times> jsval) list \<Rightarrow> store \<Rightarrow> store" where
  "calls env this [] s = s"
| "calls env this ((company_name, company_data) # cs) s =
     calls env this cs (snd (research_company_st env this company_name company_data s))"

text \<open>
  What an object in the store looks like from outside: the value one would read by
  following its references, three levels deep (a story, its nested objects, their arrays).
\<close>

fun reify :: "nat \<Rightarrow> store \<Rightarrow> slot \<Rightarrow> jsval" where
  "reify n s (Data v) = v"
| "reify 0 s (Ref a) = JUndefined"
| "reify (Suc n) s (Ref a) =
     (case lookup s a of
        HObj ps \<Rightarrow> JObj (map (\<lambda>(k, x). (k, reify n s x)) ps)
      | HArr xs \<Rightarrow> JArr (map (reify n s) xs))"

definition story_json :: "story \<Rightarrow> jsval" where
  "story_json st = JObj [(lit ''headline'', headline st), (lit ''context'', context' st),
                         (lit ''metrics'', metrics st), (lit ''business_model'', business_model st),
                         (lit ''analysis_points'', analysis_points st)]"

section \<open>Formatting an amount\<close>

text \<open>
  A JavaScript number is an IEEE 754 double. The amounts that \<open>format_metrics\<close> formats
  are whole numbers, and the model takes the whole number that the double holds: every
  whole number of magnitude up to \<open>2 ^ 53\<close> is a double, and a larger one is a double
  when \<open>binary64\<close> leaves it as it is. Quotients are rationals, rounded to a double.
\<close>



text \<open>The number of binary digits of a positive whole number.\<close>

function bit_length :: "int \<Rightarrow> nat" where
  "bit_length n = (if n \<le> 0 then 0 else Suc (bit_length (n div 2)))"
  by pat_completeness auto

termination
  by (relation "measure nat") auto

declare bit_length.simps [simp del]























section \<open>Example worlds\<close>

text \<open>
  Concrete requests and worlds on which the theorems below are run. In \<open>demo_world\<close>
  the research service answers with a fenced \<open>{}\<close>, the headline comes back with
  spaces around it, the story is a markdown heading, and \<open>JSON.parse\<close> knows the two
  texts the examples send it.
\<close>

definition research_reply :: "jsstring \<Rightarrow> jsval" where
  "research_reply text =
     JObj [(lit ''choices'', JArr [JObj [(lit ''message'', JObj [(lit ''content'', JStr text)])]])]"

definition demo_world :: env where
  "demo_world = \<lparr>
     PERPLEXITY_API_KEY = Some (lit ''pplx-key''),
     axios_post = (\<lambda>url d c. Inr (research_reply (fence @ lit ''json'' @ [10] @ lit ''{}'' @ [10] @ fence))),
     generateText = (\<lambda>r. if maxTokens r = 20 then Inr (lit '' Acme soars '') else Inr (lit ''## Acme'')),
     remark_html = (\<lambda>s. Inr (lit ''<h2>Acme</h2>'')),
     JSON_parse = (\<lambda>s. if s = lit ''{}'' then Some (JObj [])
                       else if s = lit ''null'' then Some JNull else None),
     JSON_stringify = (\<lambda>v. lit ''{}''),
     ToString_other = (\<lambda>v. Inr (lit ''[object Object]''))\<rparr>"

definition acme :: jsval where
  "acme = JStr (lit ''Acme'')"

definition demo_profile :: jsval where
  "demo_profile = JObj [
     (lit ''metrics'', JObj [(lit ''revenue'', JNum 5000000000), (lit ''funding'', JNull)]),
     (lit ''analysis_points'', JArr [JStr (lit ''Growing fast'')])]"

definition demo_payload :: "jsval \<Rightarrow> jsval" where
  "demo_payload d = JObj [(lit ''company_name'', acme), (lit ''company_data'', d)]"

definition name_only_payload :: jsval where
  "name_only_payload = JObj [(lit ''company_name'', acme)]"

text \<open>A world whose generation service rejects the call, with a message that names a secret.\<close>

definition failing_generation_world :: env where
  "failing_generation_world =
     demo_world\<lparr>generateText := (\<lambda>r. Inl (JsError (lit ''Incorrect API key provided: sk-secret'')))\<rparr>"

text \<open>A world whose research service answers with the JSON text \<open>null\<close>.\<close>

definition null_reply_world :: env where
  "null_reply_world = demo_world\<lparr>axios_post := (\<lambda>url d c. Inr (research_reply (lit ''null'')))\<rparr>"

text \<open>A world whose research service cannot be reached, and the error has an empty message.\<close>

definition silent_failure_world :: env where
  "silent_failure_world = demo_world\<lparr>axios_post := (\<lambda>url d c. Inl (JsError []))\<rparr>"

text \<open>A world whose research service answers in prose.\<close>

definition prose_reply_world :: env where
  "prose_reply_world =
     demo_world\<lparr>axios_post := (\<lambda>url d c. Inr (research_reply (lit ''Acme is a company.'')))\<rparr>"

text \<open>A world with no research credential.\<close>

definition no_credential_world :: env where
  "no_credential_world = demo_world\<lparr>PERPLEXITY_API_KEY := None\<rparr>"

text \<open>Worlds whose research service answers with no choices, and with the body \<open>null\<close>.\<close>

definition empty_choices_world :: env where
  "empty_choices_world = demo_world\<lparr>axios_post := (\<lambda>url d c. Inr (JObj [(lit ''choices'', JArr [])]))\<rparr>"

definition null_body_world :: env where
  "null_body_world = demo_world\<lparr>axios_post := (\<lambda>url d c. Inr JNull)\<rparr>"

text \<open>Worlds whose research service fences its \<open>{}\<close> at one end only.\<close>

definition lone_opening_world :: env where
  "lone_opening_world =
     demo_world\<lparr>axios_post := (\<lambda>url d c. Inr (research_reply (fence @ lit ''json'' @ [10] @ lit ''{}'')))\<rparr>"

definition lone_closing_world :: env where
  "lone_closing_world =
     demo_world\<lparr>axios_post := (\<lambda>url d c. Inr (research_reply (lit ''{}'' @ [10] @ fence)))\<rparr>"

text \<open>A world whose headline comes back as white space only.\<close>

definition blank_headline_world :: env where
  "blank_headline_world =
     demo_world\<lparr>generateText := (\<lambda>r. if maxTokens r = 20 then Inr (lit ''  '') else Inr (lit ''## Acme''))\<rparr>"

text \<open>
  A world whose story is a single link reference definition. It holds a \<open>*\<close>, and
  markdown gives a definition no output, so the transform returns the empty string.
\<close>

definition definition_only_world :: env where
  "definition_only_world = demo_world\<lparr>
     generateText := (\<lambda>r. if maxTokens r = 20 then Inr (lit ''Acme soars'')
                           else Inr (lit ''[*]: https://acme.example'')),
     remark_html := (\<lambda>s. if s = lit ''[*]: https://acme.example'' then Inr []
                          else Inr (lit ''<p>Acme</p>''))\<rparr>"

text \<open>The story that \<open>demo_profile\<close> yields in \<open>demo_world\<close>.\<close>

definition demo_story :: story where
  "demo_story = \<lparr>
     headline = JStr (lit ''Acme soars''),
     context' = JObj [(lit ''market_size'', JNull), (lit ''key_players'', JArr []),
                      (lit ''recent_developments'', JArr [])],
     metrics = JObj [(lit ''revenue'', JNum 5000000000), (lit ''funding'', JNull),
                     (lit ''market_share'', JNull), (lit ''growth_rate'', JNull)],
     business_model = JObj [(lit ''core_offering'', JNull), (lit ''unit_economics'', JNull),
                            (lit ''channels'', JArr []), (lit ''partnerships'', JArr [])],
     analysis_points = JArr [JStr (lit ''Growing fast'')]\<rparr>"

section \<open>Sequencing\<close>

lemma bind_Inl [simp]: "bind (Inl e, l) f = (Inl e, l)"
  by (simp add: bind_def)

lemma bind_Inr [simp]: "bind (Inr x, l) f = (fst (f x), l @ snd (f x))"
  by (simp add: bind_def split: prod.splits)

lemma bind_ret [simp]: "bind (ret x) f = f x"
  by (simp add: ret_def)

lemma bind_throw [simp]: "bind (throw e) f = (Inl e, [])"
  by (simp add: throw_def)

lemma bind_lift_Inr [simp]: "bind (lift (Inr x)) f = f x"
  by (simp add: lift_def)

lemma bind_lift_Inl [simp]: "bind (lift (Inl e)) f = (Inl e, [])"
  by (simp add: lift_def)

lemma bind_events:
  "ev \<in> set (snd (bind m f)) \<Longrightarrow>
     ev \<in> set (snd m) \<or> (\<exists>x. fst m = Inr x \<and> ev \<in> set (snd (f x)))"
  by (cases m; cases "fst m") auto

lemma bind_keeps_events: "ev \<in> set (snd m) \<Longrightarrow> ev \<in> set (snd (bind m f))"
  by (cases m; cases "fst m") auto

section \<open>Running the examples\<close>

text \<open>
  The examples are evaluated by rewriting with the definitions. The prompts stay folded:
  the example worlds look only at \<open>maxTokens\<close>.
\<close>

lemma maxTokens_requests [simp]:
  "maxTokens (hook_request n) = 20" "maxTokens (story_request h c m b a) = 10000"
  by (simp_all add: hook_request_def story_request_def)

lemmas run =
  POST_def POST_try_def acquire_def write_story_def render_response_def research_company_def
  generate_hook_def format_story_def markdownToHtml_def researchCompanyWithPerplexity_def
  message_content_def clean_message_def strip_code_fences_def trim_def is_space_def fence_def
  includes_str_def sublist_code suffix_to_prefix ToString_def bind_def ret_def throw_def lift_def
  call_def Let_def NextResponse_json_def failure_response_def new_bot_def lit_def field_def
  spread_def research_reply_def
  demo_world_def acme_def demo_profile_def demo_payload_def name_only_payload_def
  failing_generation_world_def null_reply_world_def silent_failure_world_def prose_reply_world_def
  blank_headline_world_def definition_only_world_def demo_story_def
  no_credential_world_def empty_choices_world_def null_body_world_def
  lone_opening_world_def lone_closing_world_def cannot_read_def

section \<open>Reading properties\<close>

lemma field_truthy: "truthy v \<Longrightarrow> get_prop v k = Inr (field v k)"
  by (cases v) (simp_all add: field_def)

lemma map_of_spread:
  "map_of (spread a b) k = (case map_of b k of Some v \<Rightarrow> Some v | None \<Rightarrow> map_of a k)"
proof -
  have left: "map_of (map (\<lambda>(k, v). (k, case map_of b k of Some v' \<Rightarrow> v' | None \<Rightarrow> v)) a) k
      = (case map_of a k of None \<Rightarrow> None
         | Some v \<Rightarrow> Some (case map_of b k of Some v' \<Rightarrow> v' | None \<Rightarrow> v))"
    by (induction a) (auto split: option.splits)
  have right: "map_of a k = None \<Longrightarrow> map_of (filter (\<lambda>(k, v). map_of a k = None) b) k = map_of b k"
    by (induction b) auto
  show ?thesis
    by (auto simp: spread_def map_add_def left right split: option.splits)
qed

lemma field_spread:
  "field (JObj (spread a b)) k = (case map_of b k of Some v \<Rightarrow> v | None \<Rightarrow> field (JObj a) k)"
  by (simp add: field_def map_of_spread split: option.splits)

section \<open>What each function does to the outside\<close>

lemma generate_hook_events:
  "ev \<in> set (snd (generate_hook env n)) \<Longrightarrow> \<exists>r. ev = GenerateText r"
  by (auto simp: generate_hook_def lift_def call_def ret_def bind_def split: sum.splits prod.splits)

lemma research_events:
  "ev \<in> set (snd (researchCompanyWithPerplexity env n)) \<Longrightarrow> \<exists>u d c. ev = Axios_post u d c"
  by (auto simp: researchCompanyWithPerplexity_def lift_def call_def ret_def throw_def bind_def
      split: sum.splits prod.splits option.splits if_splits)

lemma acquire_events:
  "ev \<in> set (snd (acquire env n d)) \<Longrightarrow> \<exists>u d c. ev = Axios_post u d c"
  using research_events [of ev env n]
  by (auto simp: acquire_def split: if_splits sum.splits prod.splits thrown.splits)

lemma research_company_events:
  "ev \<in> set (snd (research_company env this n d)) \<Longrightarrow> \<exists>r. ev = GenerateText r"
  using generate_hook_events [of ev env n]
  by (cases "generate_hook env n")
     (auto simp: research_company_def Let_def lift_def ret_def bind_def split: sum.splits prod.splits)

lemma format_story_events:
  "ev \<in> set (snd (format_story env s)) \<Longrightarrow> ev = Format_story s \<or> (\<exists>r. ev = GenerateText r)"
  by (auto simp: format_story_def Let_def call_def ret_def bind_def split: sum.splits prod.splits)

lemma write_story_events:
  assumes "ev \<in> set (snd (write_story env this n d))"
  shows "(\<exists>r. ev = GenerateText r)
       \<or> (\<exists>s. ev = Format_story s \<and> truthy d \<and> fst (research_company env this n d) = Inr s)"
proof (cases "truthy d")
  case False
  with assms show ?thesis
    by (simp add: write_story_def ret_def)
next
  case True
  with assms consider "ev \<in> set (snd (research_company env this n d))"
    | s where "fst (research_company env this n d) = Inr s" "truthy (headline s)"
        "ev \<in> set (snd (format_story env s))"
    by (auto simp: write_story_def throw_def dest!: bind_events split: if_splits)
  then show ?thesis
  proof cases
    case 1
    then show ?thesis
      using research_company_events by blast
  next
    case 2
    with True show ?thesis
      using format_story_events by blast
  qed
qed

lemma render_response_eq:
  "render_response env text raw =
     (if includes_str text (lit ''##'') \<or> includes_str text (lit ''*'') then
        (case remark_html env text of
           Inl e \<Rightarrow> (Inl e, [Remark_process text])
         | Inr html \<Rightarrow>
             (Inr \<lparr>status = 200,
                   body = JObj [(lit ''story'', JStr text), (lit ''htmlContent'', JStr html),
                                (lit ''isMarkdown'', JBool True), (lit ''rawApiResponse'', raw)]\<rparr>,
              [Remark_process text]))
      else
        (Inr \<lparr>status = 200,
              body = JObj [(lit ''story'', JStr text), (lit ''htmlContent'', JStr []),
                           (lit ''isMarkdown'', JBool False), (lit ''rawApiResponse'', raw)]\<rparr>, []))"
  by (auto simp: render_response_def Let_def markdownToHtml_def call_def ret_def NextResponse_json_def
      split: sum.splits)

text \<open>The handler, once the body is read and the acquisition phase is over.\<close>

lemma POST_try_unfold:
  assumes "get_prop payload (lit ''company_name'') = Inr name"
    and "get_prop payload (lit ''company_data'') = Inr data"
    and "acquire env name data = ((research_data, raw), l0)"
  shows "POST_try env (Inr payload) =
     (if \<not> truthy research_data \<and> \<not> truthy raw
      then (Inl (JsError (lit ''Failed to fetch company data'')), l0)
      else (case write_story env new_bot name research_data of
              (Inl e, l1) \<Rightarrow> (Inl e, l0 @ l1)
            | (Inr text, l1) \<Rightarrow>
                (fst (render_response env text raw), l0 @ l1 @ snd (render_response env text raw))))"
  using assms by (auto simp: POST_try_def Let_def throw_def split: prod.splits sum.splits)

lemma snd_POST: "snd (POST env r) = snd (POST_try env r)"
  by (simp add: POST_def split: prod.splits sum.splits)

lemma fst_POST:
  "fst (POST env r) = (case fst (POST_try env r) of Inl e \<Rightarrow> failure_response | Inr resp \<Rightarrow> resp)"
  by (simp add: POST_def split: prod.splits sum.splits)

section \<open>The catch-all\<close>

text \<open>
  Claim C8. Whatever is thrown inside the handler's \<open>try\<close> (a failed generation, a
  failed render, the hard stop after acquisition, a body that is not JSON), the answer is
  status 500 with the body \<open>{error: "Failed to generate newsletter"}\<close> and nothing else:
  the response is the same for every thrown value, so no detail of it reaches the caller.
\<close>

theorem catch_all_generic_500:
  assumes "POST_try env req_json = (Inl e, l)"
  shows "POST env req_json =
           (\<lparr>status = 500,
             body = JObj [(lit ''error'', JStr (lit ''Failed to generate newsletter''))]\<rparr>, l)"
  using assms by (simp add: POST_def failure_response_def NextResponse_json_def)

theorem catch_all_generic_500_witness:
  "POST_try failing_generation_world (Inr (demo_payload demo_profile)) =
     (Inl (JsError (lit ''Incorrect API key provided: sk-secret'')),
      [GenerateText (hook_request (lit ''Acme''))])
   \<and> POST failing_generation_world (Inr (demo_payload demo_profile)) =
     (\<lparr>status = 500,
       body = JObj [(lit ''error'', JStr (lit ''Failed to generate newsletter''))]\<rparr>,
      [GenerateText (hook_request (lit ''Acme''))])"
proof -
  have thrown:
    "POST_try failing_generation_world (Inr (demo_payload demo_profile)) =
       (Inl (JsError (lit ''Incorrect API key provided: sk-secret'')),
        [GenerateText (hook_request (lit ''Acme''))])"
    by (simp add: run)
  from catch_all_generic_500 [OF thrown] thrown show ?thesis
    by simp
qed

section \<open>Neither data nor a recorded error\<close>

text \<open>
  Claim C6. When the acquisition phase ends with \<open>research_data\<close> falsy and
  \<open>rawApiResponse\<close> falsy (\<open>null\<close>, or an empty message), line 230 throws and the
  answer is the 500 of the catch-all; nothing is generated or rendered.
\<close>

theorem no_data_no_error_fails_hard:
  assumes "get_prop payload (lit ''company_name'') = Inr name"
    and "get_prop payload (lit ''company_data'') = Inr data"
    and "fst (acquire env name data) = (research_data, rawApiResponse)"
    and "\<not> truthy research_data"
    and "\<not> truthy rawApiResponse"
  shows "POST env (Inr payload) = (failure_response, snd (acquire env name data))
         \<and> status failure_response = 500"
proof -
  obtain l where "acquire env name data = ((research_data, rawApiResponse), l)"
    using assms(3) by (cases "acquire env name data") simp
  with assms show ?thesis
    by (simp add: POST_def POST_try_unfold failure_response_def NextResponse_json_def)
qed

theorem no_data_no_error_fails_hard_witness:
  "fst (acquire null_reply_world acme JUndefined) = (JNull, JNull)
   \<and> fst (POST null_reply_world (Inr name_only_payload)) = failure_response
   \<and> status (fst (POST null_reply_world (Inr name_only_payload))) = 500"
proof -
  have a: "get_prop name_only_payload (lit ''company_name'') = Inr acme"
    by (simp add: run)
  have b: "get_prop name_only_payload (lit ''company_data'') = Inr JUndefined"
    by (simp add: run)
  have c: "fst (acquire null_reply_world acme JUndefined) = (JNull, JNull)"
    by (simp add: run)
  from no_data_no_error_fails_hard [OF a b c] c show ?thesis
    by simp
qed

section \<open>An empty headline stops the pipeline\<close>

lemma research_company_headline:
  assumes "truthy data" and "fst (generate_hook env name) = Inr h"
  shows "\<exists>st. research_company env this name data = (Inr st, snd (generate_hook env name))
              \<and> headline st = JStr h"
proof -
  obtain l where "generate_hook env name = (Inr h, l)"
    using assms(2) by (cases "generate_hook env name") simp
  then show ?thesis
    by (simp add: research_company_def Let_def ret_def field_truthy [OF assms(1)])
qed

text \<open>
  Claim C2. When the acquisition phase left a profile (\<open>research_data\<close> is truthy) and
  \<open>generate_hook\<close> returns the empty string (the generated text, trimmed), the answer is
  the 500 of the catch-all, the only events are those of the acquisition and of the headline
  step, and \<open>format_story\<close> was not entered.
\<close>

theorem empty_headline_stops_before_format_story:
  assumes "get_prop payload (lit ''company_name'') = Inr name"
    and "get_prop payload (lit ''company_data'') = Inr data"
    and "fst (acquire env name data) = (research_data, rawApiResponse)"
    and "truthy research_data"
    and "fst (generate_hook env name) = Inr []"
  shows "fst (POST env (Inr payload)) = failure_response
       \<and> status (fst (POST env (Inr payload))) = 500
       \<and> snd (POST env (Inr payload)) = snd (acquire env name data) @ snd (generate_hook env name)
       \<and> Format_story st \<notin> set (snd (POST env (Inr payload)))"
proof -
  obtain l where acq: "acquire env name data = ((research_data, rawApiResponse), l)"
    using assms(3) by (cases "acquire env name data") simp
  obtain s where rc: "research_company env new_bot name research_data = (Inr s, snd (generate_hook env name))"
    and hs: "headline s = JStr []"
    using research_company_headline [OF assms(4) assms(5)] by blast
  have ws: "write_story env new_bot name research_data =
              (Inl (JsError (lit ''Generated headline is null'')), snd (generate_hook env name))"
    using assms(4) rc hs by (simp add: write_story_def throw_def)
  have post: "POST env (Inr payload) = (failure_response, l @ snd (generate_hook env name))"
    using assms(4) ws by (simp add: POST_def POST_try_unfold [OF assms(1,2) acq])
  have "Format_story st \<notin> set (l @ snd (generate_hook env name))"
    using acquire_events [of "Format_story st" env name data]
      generate_hook_events [of "Format_story st" env name] acq
    by auto
  with post acq show ?thesis
    by (simp add: failure_response_def NextResponse_json_def)
qed

theorem empty_headline_stops_before_format_story_witness:
  "fst (generate_hook blank_headline_world acme) = Inr []
   \<and> fst (POST blank_headline_world (Inr (demo_payload demo_profile))) = failure_response
   \<and> status (fst (POST blank_headline_world (Inr (demo_payload demo_profile)))) = 500
   \<and> snd (POST blank_headline_world (Inr (demo_payload demo_profile)))
       = [GenerateText (hook_request (lit ''Acme''))]
   \<and> Format_story demo_story \<notin> set (snd (POST blank_headline_world (Inr (demo_payload demo_profile))))"
proof -
  have a: "get_prop (demo_payload demo_profile) (lit ''company_name'') = Inr acme"
    by (simp add: run)
  have b: "get_prop (demo_payload demo_profile) (lit ''company_data'') = Inr demo_profile"
    by (simp add: run)
  have c: "fst (acquire blank_headline_world acme demo_profile) = (demo_profile, JNull)"
    by (simp add: run)
  have d: "truthy demo_profile"
    by (simp add: run)
  have e: "fst (generate_hook blank_headline_world acme) = Inr []"
    by (simp add: run)
  have f: "snd (acquire blank_headline_world acme demo_profile) @ snd (generate_hook blank_headline_world acme)
             = [GenerateText (hook_request (lit ''Acme''))]"
    by (simp add: run)
  from empty_headline_stops_before_format_story [OF a b c d e, of demo_story] e f show ?thesis
    by (simp add: failure_response_def NextResponse_json_def)
qed

section \<open>A supplied profile is used as it is\<close>

lemma research_company_story:
  assumes "truthy data" and "research_company env this name data = (Inr s, l)"
  shows "metrics s = JObj (spread (own_props (metrics (story_template this)))
                                  (own_props (field data (lit ''metrics''))))
       \<and> business_model s = JObj (spread (own_props (business_model (story_template this)))
                                         (own_props (field data (lit ''business_model''))))
       \<and> context' s = JObj (spread (own_props (context' (story_template this)))
                                   (own_props (field data (lit ''context''))))
       \<and> analysis_points s = (if truthy (field data (lit ''analysis_points''))
                               then field data (lit ''analysis_points'') else JArr [])"
proof -
  obtain r l0 where g: "generate_hook env name = (r, l0)"
    by (cases "generate_hook env name")
  show ?thesis
  proof (cases r)
    case (Inl e)
    with g assms(2) show ?thesis
      by (simp add: research_company_def Let_def)
  next
    case (Inr h)
    with g assms(2) show ?thesis
      by (auto simp: research_company_def Let_def ret_def field_truthy [OF assms(1)])
  qed
qed

lemma POST_supplied_events:
  assumes "get_prop payload (lit ''company_name'') = Inr name"
    and "get_prop payload (lit ''company_data'') = Inr data"
    and "truthy data"
    and "ev \<in> set (snd (POST env (Inr payload)))"
  shows "(\<exists>r. ev = GenerateText r) \<or> (\<exists>m. ev = Remark_process m)
       \<or> (\<exists>s. ev = Format_story s \<and> fst (research_company env new_bot name data) = Inr s)"
proof -
  have acq: "acquire env name data = ((data, JNull), [])"
    using assms(3) by (simp add: acquire_def)
  obtain r l1 where ws: "write_story env new_bot name data = (r, l1)"
    by (cases "write_story env new_bot name data")
  from assms(4) have "ev \<in> set l1 \<or> (\<exists>text. ev = Remark_process text)"
    unfolding snd_POST POST_try_unfold [OF assms(1,2) acq]
    using assms(3) ws by (cases r) (auto simp: render_response_eq split: if_splits sum.splits)
  then show ?thesis
    using write_story_events [of ev env new_bot name data] ws by auto
qed

text \<open>
  Claim C1. When the body carries a truthy \<open>company_data\<close>, the acquisition phase returns
  that value itself with no event, so the handler never calls \<open>axios.post\<close>; and a story
  that reaches \<open>format_story\<close> holds, under \<open>metrics\<close>, \<open>business_model\<close> and
  \<open>context\<close>, for every key the supplied value where the profile has the key and the
  template's default where it has not, and as \<open>analysis_points\<close> the supplied list, or the
  empty list when the profile has none. A headline that is not empty does bring the story
  to \<open>format_story\<close>.
\<close>

theorem supplied_profile_used_directly:
  assumes "get_prop payload (lit ''company_name'') = Inr name"
    and "get_prop payload (lit ''company_data'') = Inr data"
    and "truthy data"
  shows "acquire env name data = ((data, JNull), [])
       \<and> Axios_post url d c \<notin> set (snd (POST env (Inr payload)))
       \<and> (Format_story st \<in> set (snd (POST env (Inr payload))) \<longrightarrow>
            (\<forall>k. field (metrics st) k =
                   (case map_of (own_props (field data (lit ''metrics''))) k of
                      Some v \<Rightarrow> v | None \<Rightarrow> field (metrics (story_template new_bot)) k))
          \<and> (\<forall>k. field (business_model st) k =
                   (case map_of (own_props (field data (lit ''business_model''))) k of
                      Some v \<Rightarrow> v | None \<Rightarrow> field (business_model (story_template new_bot)) k))
          \<and> (\<forall>k. field (context' st) k =
                   (case map_of (own_props (field data (lit ''context''))) k of
                      Some v \<Rightarrow> v | None \<Rightarrow> field (context' (story_template new_bot)) k))
          \<and> (\<forall>xs. field data (lit ''analysis_points'') = JArr xs \<longrightarrow> analysis_points st = JArr xs)
          \<and> (field data (lit ''analysis_points'') = JUndefined \<longrightarrow> analysis_points st = JArr []))
       \<and> (\<forall>h. fst (generate_hook env name) = Inr h \<and> h \<noteq> [] \<longrightarrow>
            (\<exists>s. Format_story s \<in> set (snd (POST env (Inr payload)))))"
proof -
  have acq: "acquire env name data = ((data, JNull), [])"
    using assms(3) by (simp add: acquire_def)
  have no_research: "Axios_post url d c \<notin> set (snd (POST env (Inr payload)))"
    using POST_supplied_events [OF assms, of "Axios_post url d c" env] by auto
  have story: "Format_story st \<in> set (snd (POST env (Inr payload))) \<Longrightarrow>
      \<exists>l. research_company env new_bot name data = (Inr st, l)"
    using POST_supplied_events [OF assms, of "Format_story st" env]
    by (cases "research_company env new_bot name data") auto
  have main: "(\<forall>k. field (metrics st) k =
                   (case map_of (own_props (field data (lit ''metrics''))) k of
                      Some v \<Rightarrow> v | None \<Rightarrow> field (metrics (story_template new_bot)) k))
          \<and> (\<forall>k. field (business_model st) k =
                   (case map_of (own_props (field data (lit ''business_model''))) k of
                      Some v \<Rightarrow> v | None \<Rightarrow> field (business_model (story_template new_bot)) k))
          \<and> (\<forall>k. field (context' st) k =
                   (case map_of (own_props (field data (lit ''context''))) k of
                      Some v \<Rightarrow> v | None \<Rightarrow> field (context' (story_template new_bot)) k))
          \<and> (\<forall>xs. field data (lit ''analysis_points'') = JArr xs \<longrightarrow> analysis_points st = JArr xs)
          \<and> (field data (lit ''analysis_points'') = JUndefined \<longrightarrow> analysis_points st = JArr [])"
    if fs: "Format_story st \<in> set (snd (POST env (Inr payload)))"
  proof -
    obtain l where rc: "research_company env new_bot name data = (Inr st, l)"
      using story [OF fs] by blast
    note s = research_company_story [OF assms(3) rc]
    show ?thesis
      using s by (simp add: field_spread new_bot_def cong: option.case_cong)
  qed
  have reaches: "\<exists>s. Format_story s \<in> set (snd (POST env (Inr payload)))"
    if h: "fst (generate_hook env name) = Inr h" "h \<noteq> []" for h
  proof -
    obtain s where rc: "research_company env new_bot name data = (Inr s, snd (generate_hook env name))"
      and hs: "headline s = JStr h"
      using research_company_headline [OF assms(3) h(1)] by blast
    have "Format_story s \<in> set (snd (format_story env s))"
      by (auto simp: format_story_def Let_def call_def bind_def split: sum.splits prod.splits)
    then have "Format_story s \<in> set (snd (write_story env new_bot name data))"
      using assms(3) rc hs h(2) by (simp add: write_story_def)
    then have "Format_story s \<in> set (snd (POST env (Inr payload)))"
      unfolding snd_POST POST_try_unfold [OF assms(1,2) acq]
      using assms(3) by (auto split: prod.splits sum.splits)
    then show ?thesis ..
  qed
  from acq no_research main reaches show ?thesis
    by blast
qed

theorem supplied_profile_used_directly_witness:
  "truthy demo_profile
   \<and> acquire demo_world acme demo_profile = ((demo_profile, JNull), [])
   \<and> Format_story demo_story \<in> set (snd (POST demo_world (Inr (demo_payload demo_profile))))
   \<and> field (metrics demo_story) (lit ''revenue'') = JNum 5000000000
   \<and> field (metrics demo_story) (lit ''market_share'') = JNull
   \<and> analysis_points demo_story = JArr [JStr (lit ''Growing fast'')]"
proof -
  have a: "get_prop (demo_payload demo_profile) (lit ''company_name'') = Inr acme"
    by (simp add: run)
  have b: "get_prop (demo_payload demo_profile) (lit ''company_data'') = Inr demo_profile"
    by (simp add: run)
  have c: "truthy demo_profile"
    by (simp add: run)
  have d: "Format_story demo_story \<in> set (snd (POST demo_world (Inr (demo_payload demo_profile))))"
    by (simp add: run)
  have e: "map_of (own_props (field demo_profile (lit ''metrics''))) (lit ''revenue'') = Some (JNum 5000000000)"
    "map_of (own_props (field demo_profile (lit ''metrics''))) (lit ''market_share'') = None"
    "field (metrics (story_template new_bot)) (lit ''market_share'') = JNull"
    "field demo_profile (lit ''analysis_points'') = JArr [JStr (lit ''Growing fast'')]"
    by (simp_all add: run)
  from supplied_profile_used_directly [OF a b c, of demo_world _ _ _ demo_story] c d e
  show ?thesis
    by (auto split: option.splits)
qed

section \<open>A falsy profile counts as none\<close>

text \<open>
  Claim C9. The test on line 216 is \<open>!company_data\<close>: a body whose \<open>company_data\<close> is
  \<open>null\<close>, \<open>false\<close>, \<open>0\<close> or the empty string is falsy, so the acquisition phase calls
  the research function (its events are the phase's events, and with a credential set and a
  name that converts the request goes out), and the handler answers exactly as it does
  for a body without the field.
\<close>

theorem falsy_company_data_is_researched:
  assumes "v \<in> {JNull, JBool False, JNum 0, JStr []}"
    and "get_prop p1 (lit ''company_name'') = Inr name"
    and "get_prop p1 (lit ''company_data'') = Inr v"
    and "get_prop p2 (lit ''company_name'') = Inr name"
    and "get_prop p2 (lit ''company_data'') = Inr JUndefined"
  shows "\<not> truthy v
       \<and> snd (acquire env name v) = snd (researchCompanyWithPerplexity env name)
       \<and> (\<forall>key n. PERPLEXITY_API_KEY env = Some key \<and> key \<noteq> [] \<and> ToString env name = Inr n \<longrightarrow>
            Axios_post perplexity_url (perplexity_data n) (perplexity_config key)
              \<in> set (snd (POST env (Inr p1))))
       \<and> POST env (Inr p1) = POST env (Inr p2)"
proof -
  have falsy: "\<not> truthy v"
    using assms(1) by auto
  obtain r l where res: "researchCompanyWithPerplexity env name = (r, l)"
    by (cases "researchCompanyWithPerplexity env name")
  have "\<exists>rd rd' raw. acquire env name v = ((rd, raw), l)
          \<and> acquire env name JUndefined = ((rd', raw), l)
          \<and> (rd = rd' \<or> \<not> truthy rd \<and> \<not> truthy rd')"
    using falsy res by (cases r) (auto simp: acquire_def split: thrown.splits)
  then obtain rd rd' raw where acq1: "acquire env name v = ((rd, raw), l)"
    and acq2: "acquire env name JUndefined = ((rd', raw), l)"
    and rd: "rd = rd' \<or> \<not> truthy rd \<and> \<not> truthy rd'"
    by blast
  have same: "POST_try env (Inr p1) = POST_try env (Inr p2)"
    unfolding POST_try_unfold [OF assms(2,3) acq1] POST_try_unfold [OF assms(4,5) acq2]
    using rd by (auto simp: write_story_def)
  have sent: "Axios_post perplexity_url (perplexity_data n) (perplexity_config key)
                \<in> set (snd (POST env (Inr p1)))"
    if "PERPLEXITY_API_KEY env = Some key" "key \<noteq> []" "ToString env name = Inr n" for key n
  proof -
    have "Axios_post perplexity_url (perplexity_data n) (perplexity_config key)
            \<in> set (snd (researchCompanyWithPerplexity env name))"
      using that
      by (simp add: researchCompanyWithPerplexity_def) (rule bind_keeps_events, simp add: call_def)
    then have "Axios_post perplexity_url (perplexity_data n) (perplexity_config key) \<in> set l"
      using res by simp
    then show ?thesis
      unfolding snd_POST POST_try_unfold [OF assms(2,3) acq1]
      by (auto split: prod.splits sum.splits)
  qed
  from falsy res acq1 same sent show ?thesis
    by (simp add: POST_def)
qed

theorem falsy_company_data_is_researched_witness:
  "\<not> truthy JNull
   \<and> Axios_post perplexity_url (perplexity_data (lit ''Acme'')) (perplexity_config (lit ''pplx-key''))
       \<in> set (snd (POST demo_world (Inr (demo_payload JNull))))
   \<and> POST demo_world (Inr (demo_payload JNull)) = POST demo_world (Inr name_only_payload)"
proof -
  have a: "JNull \<in> {JNull, JBool False, JNum 0, JStr []}"
    by simp
  have b: "get_prop (demo_payload JNull) (lit ''company_name'') = Inr acme"
    "get_prop (demo_payload JNull) (lit ''company_data'') = Inr JNull"
    "get_prop name_only_payload (lit ''company_name'') = Inr acme"
    "get_prop name_only_payload (lit ''company_data'') = Inr JUndefined"
    by (simp_all add: run)
  have c: "PERPLEXITY_API_KEY demo_world = Some (lit ''pplx-key'')" "lit ''pplx-key'' \<noteq> []"
    "ToString demo_world acme = Inr (lit ''Acme'')"
    by (simp_all add: run)
  from falsy_company_data_is_researched [OF a b, of demo_world] c show ?thesis
    by blast
qed

section \<open>A failed acquisition\<close>

lemma research_without_credential:
  assumes "PERPLEXITY_API_KEY env = None \<or> PERPLEXITY_API_KEY env = Some []"
  shows "researchCompanyWithPerplexity env name = (Inl (JsError (lit ''Perplexity API key is not set'')), [])"
  using assms by (auto simp: researchCompanyWithPerplexity_def throw_def)

lemma research_unparsable:
  assumes "PERPLEXITY_API_KEY env = Some key" and "key \<noteq> []"
    and "ToString env name = Inr n"
    and "axios_post env perplexity_url (perplexity_data n) (perplexity_config key) = Inr reply"
    and "message_content reply = Inr (JStr text)"
  shows "fst (researchCompanyWithPerplexity env name) =
           (case JSON_parse env (trim (strip_code_fences text)) of
              Some d \<Rightarrow> Inr d
            | None \<Rightarrow> Inl (JsError (lit ''Failed to parse JSON response from Perplexity'')))"
  using assms
  by (simp add: researchCompanyWithPerplexity_def call_def clean_message_def throw_def ret_def
      split: option.splits)

text \<open>The TypeErrors of a reply of the wrong shape, and the ways the function fails after a reply.\<close>

lemma get_prop_error:
  assumes "get_prop v k = Inl te"
  shows "\<exists>base. base \<in> {lit ''undefined'', lit ''null''} \<and> te = JsError (cannot_read base k)"
  using assms by (cases v) auto

lemma get_index0_error:
  assumes "get_index0 v = Inl te"
  shows "\<exists>base. base \<in> {lit ''undefined'', lit ''null''} \<and> te = JsError (cannot_read base (lit ''0''))"
  using assms by (cases v) auto

lemma message_content_error:
  assumes "message_content reply = Inl te"
  shows "\<exists>base k. base \<in> {lit ''undefined'', lit ''null''} \<and> te = JsError (cannot_read base k)"
proof (cases "get_prop reply (lit ''choices'')")
  case (Inl e)
  with assms get_prop_error [OF Inl] show ?thesis
    by (auto simp: message_content_def)
next
  case choices: (Inr cs)
  show ?thesis
  proof (cases "get_index0 cs")
    case (Inl e)
    with assms choices get_index0_error [OF Inl] show ?thesis
      by (auto simp: message_content_def)
  next
    case choice: (Inr c)
    show ?thesis
    proof (cases "get_prop c (lit ''message'')")
      case (Inl e)
      with assms choices choice get_prop_error [OF Inl] show ?thesis
        by (auto simp: message_content_def)
    next
      case (Inr m)
      with assms choices choice have "get_prop m (lit ''content'') = Inl te"
        by (simp add: message_content_def)
      from get_prop_error [OF this] show ?thesis
        by blast
    qed
  qed
qed

lemma clean_message_error:
  assumes "clean_message c = Inl te"
  shows "(\<exists>base. base \<in> {lit ''undefined'', lit ''null''} \<and> te = JsError (cannot_read base (lit ''replace'')))
       \<or> te = JsError not_a_function"
  using assms by (cases c) (auto simp: clean_message_def)

lemma research_after_reply:
  assumes "PERPLEXITY_API_KEY env = Some key" and "key \<noteq> []"
    and "ToString env name = Inr n"
    and "axios_post env perplexity_url (perplexity_data n) (perplexity_config key) = Inr reply"
    and "fst (researchCompanyWithPerplexity env name) = Inl e"
  shows "(case message_content reply of
            Inl te \<Rightarrow> e = te
          | Inr c \<Rightarrow>
              (case clean_message c of
                 Inl te \<Rightarrow> e = te
               | Inr cleaned \<Rightarrow> e = JsError (lit ''Failed to parse JSON response from Perplexity'')))"
  using assms
  by (auto simp: researchCompanyWithPerplexity_def call_def throw_def ret_def lift_def bind_def
      split: sum.splits option.splits)

lemma diagnostics_not_empty:
  "lit ''Perplexity API key is not set'' \<noteq> []"
  "lit ''Failed to parse JSON response from Perplexity'' \<noteq> []"
  "lit ''An unknown error occurred'' \<noteq> []"
  "cannot_read base k \<noteq> []" "not_a_function \<noteq> []"
  by (simp_all add: lit_def cannot_read_def not_a_function_def)

lemma research_failure_missing:
  assumes "fst (researchCompanyWithPerplexity env name) = Inl e"
    and "diag = (case e of JsError m \<Rightarrow> m | JsThrown v \<Rightarrow> lit ''An unknown error occurred'')"
    and "PERPLEXITY_API_KEY env = None \<or> PERPLEXITY_API_KEY env = Some []"
  shows "diag = lit ''Perplexity API key is not set''"
  using research_without_credential [OF assms(3), of name] assms(1,2) by auto

lemma research_failure_replied:
  assumes "fst (researchCompanyWithPerplexity env name) = Inl e"
    and "diag = (case e of JsError m \<Rightarrow> m | JsThrown v \<Rightarrow> lit ''An unknown error occurred'')"
    and k: "PERPLEXITY_API_KEY env = Some key" "key \<noteq> []" "ToString env name = Inr n"
      "axios_post env perplexity_url (perplexity_data n) (perplexity_config key) = Inr reply"
  shows "(\<forall>te. message_content reply = Inl te \<longrightarrow> e = te)
         \<and> (\<forall>text. message_content reply = Inr (JStr text) \<longrightarrow>
               diag = lit ''Failed to parse JSON response from Perplexity'')
         \<and> (diag = lit ''Failed to parse JSON response from Perplexity''
              \<or> diag = not_a_function
              \<or> (\<exists>base k. base \<in> {lit ''undefined'', lit ''null''} \<and> diag = cannot_read base k))"
proof -
  note later = research_after_reply [OF k assms(1)]
  have a: "e = te" if "message_content reply = Inl te" for te
    using later that by simp
  have b: "diag = lit ''Failed to parse JSON response from Perplexity''"
    if "message_content reply = Inr (JStr s)" for s
    using later that assms(2) by (simp add: clean_message_def)
  have c: "diag = lit ''Failed to parse JSON response from Perplexity''
              \<or> diag = not_a_function
              \<or> (\<exists>base k. base \<in> {lit ''undefined'', lit ''null''} \<and> diag = cannot_read base k)"
  proof (cases "message_content reply")
    case (Inl te)
    with later have "e = te"
      by simp
    moreover from message_content_error [OF Inl] obtain base k
      where "base \<in> {lit ''undefined'', lit ''null''}" "te = JsError (cannot_read base k)"
      by blast
    ultimately have "base \<in> {lit ''undefined'', lit ''null''} \<and> diag = cannot_read base k"
      using assms(2) by simp
    then show ?thesis
      by blast
  next
    case content: (Inr c)
    show ?thesis
    proof (cases "clean_message c")
      case (Inl te)
      with later content have "e = te"
        by simp
      with clean_message_error [OF Inl] assms(2)
      have "diag = not_a_function
          \<or> (\<exists>base. base \<in> {lit ''undefined'', lit ''null''} \<and> diag = cannot_read base (lit ''replace''))"
        by auto
      then show ?thesis
        by blast
    next
      case (Inr cleaned)
      with later content assms(2) show ?thesis
        by simp
    qed
  qed
  from a b c show ?thesis
    by blast
qed

text \<open>
  Claim C3, as the code has it. With a falsy \<open>company_data\<close> and a research function that
  throws, the handler records the message (or \<open>An unknown error occurred\<close> for a thrown
  value that is not an Error). Whenever that text is not empty the answer is 200 with an
  empty story, empty \<open>htmlContent\<close>, \<open>isMarkdown\<close> false and the text as
  \<open>rawApiResponse\<close>, and nothing was generated or rendered: the events are those of the
  research function. The text is never empty when the credential is missing (it is
  \<open>Perplexity API key is not set\<close>) and when the service has replied: a reply whose
  content is a text that does not parse gives \<open>Failed to parse JSON response from
  Perplexity\<close>, and a reply of the wrong shape gives the TypeError of the first read that
  fails, \<open>Cannot read properties of undefined\<close> or \<open>of null\<close> with the property
  read, or \<open>assistantMessage.replace is not a function\<close>. Only the request itself (or the
  conversion of the name) can fail with an empty message, and then the answer is the 500.
\<close>

theorem failed_acquisition_answers_200_with_diagnostic:
  assumes "get_prop payload (lit ''company_name'') = Inr name"
    and "get_prop payload (lit ''company_data'') = Inr data"
    and "\<not> truthy data"
    and "fst (researchCompanyWithPerplexity env name) = Inl e"
    and "diag = (case e of JsError m \<Rightarrow> m | JsThrown v \<Rightarrow> lit ''An unknown error occurred'')"
  shows "(diag \<noteq> []
            \<or> PERPLEXITY_API_KEY env = None \<or> PERPLEXITY_API_KEY env = Some []
            \<or> (\<exists>key n reply. PERPLEXITY_API_KEY env = Some key \<and> ToString env name = Inr n
                  \<and> axios_post env perplexity_url (perplexity_data n) (perplexity_config key) = Inr reply)
          \<longrightarrow> diag \<noteq> []
            \<and> POST env (Inr payload) =
                (\<lparr>status = 200,
                  body = JObj [(lit ''story'', JStr []), (lit ''htmlContent'', JStr []),
                               (lit ''isMarkdown'', JBool False), (lit ''rawApiResponse'', JStr diag)]\<rparr>,
                 snd (researchCompanyWithPerplexity env name))
            \<and> GenerateText r \<notin> set (snd (POST env (Inr payload)))
            \<and> Format_story st \<notin> set (snd (POST env (Inr payload)))
            \<and> Remark_process m \<notin> set (snd (POST env (Inr payload))))
       \<and> (PERPLEXITY_API_KEY env = None \<or> PERPLEXITY_API_KEY env = Some [] \<longrightarrow>
            diag = lit ''Perplexity API key is not set'')
       \<and> (\<forall>key n reply. PERPLEXITY_API_KEY env = Some key \<and> key \<noteq> [] \<and> ToString env name = Inr n
              \<and> axios_post env perplexity_url (perplexity_data n) (perplexity_config key) = Inr reply \<longrightarrow>
            (\<forall>te. message_content reply = Inl te \<longrightarrow> e = te)
            \<and> (\<forall>text. message_content reply = Inr (JStr text) \<longrightarrow>
                  diag = lit ''Failed to parse JSON response from Perplexity'')
            \<and> (diag = lit ''Failed to parse JSON response from Perplexity''
                 \<or> diag = not_a_function
                 \<or> (\<exists>base k. base \<in> {lit ''undefined'', lit ''null''} \<and> diag = cannot_read base k)))
       \<and> (\<forall>v. e = JsThrown v \<longrightarrow> diag = lit ''An unknown error occurred'')
       \<and> (diag = [] \<longrightarrow>
            POST env (Inr payload) = (failure_response, snd (researchCompanyWithPerplexity env name)))"
proof -
  obtain l where res: "researchCompanyWithPerplexity env name = (Inl e, l)"
    using assms(4) by (cases "researchCompanyWithPerplexity env name") simp
  have acq: "acquire env name data = ((data, JStr diag), l)"
    using assms(3,5) res by (simp add: acquire_def split: thrown.splits)
  have no_md: "\<not> includes_str [] (lit ''##'')" "\<not> includes_str [] (lit ''*'')"
    by (simp_all add: includes_str_def lit_def)
  have post: "POST env (Inr payload) =
           (\<lparr>status = 200,
             body = JObj [(lit ''story'', JStr []), (lit ''htmlContent'', JStr []),
                          (lit ''isMarkdown'', JBool False), (lit ''rawApiResponse'', JStr diag)]\<rparr>, l)"
    if "diag \<noteq> []"
    using assms(3) that no_md
    by (simp add: POST_def POST_try_unfold [OF assms(1,2) acq] write_story_def ret_def render_response_eq)
  have hard: "POST env (Inr payload) = (failure_response, l)" if "diag = []"
    using assms(3) that by (simp add: POST_def POST_try_unfold [OF assms(1,2) acq])
  have quiet: "GenerateText r \<notin> set l" "Format_story st \<notin> set l" "Remark_process m \<notin> set l"
    using research_events [of _ env name] res by auto
  have missing: "diag = lit ''Perplexity API key is not set''"
    if "PERPLEXITY_API_KEY env = None \<or> PERPLEXITY_API_KEY env = Some []"
    using research_failure_missing [OF assms(4,5) that] .
  have replied: "(\<forall>te. message_content reply = Inl te \<longrightarrow> e = te)
         \<and> (\<forall>text. message_content reply = Inr (JStr text) \<longrightarrow>
               diag = lit ''Failed to parse JSON response from Perplexity'')
         \<and> (diag = lit ''Failed to parse JSON response from Perplexity''
              \<or> diag = not_a_function
              \<or> (\<exists>base k. base \<in> {lit ''undefined'', lit ''null''} \<and> diag = cannot_read base k))"
    if "PERPLEXITY_API_KEY env = Some key" "key \<noteq> []" "ToString env name = Inr n"
      "axios_post env perplexity_url (perplexity_data n) (perplexity_config key) = Inr reply"
    for key n reply
    using research_failure_replied [OF assms(4,5) that] .
  have nonempty: "diag \<noteq> []"
    if "diag \<noteq> []
          \<or> PERPLEXITY_API_KEY env = None \<or> PERPLEXITY_API_KEY env = Some []
          \<or> (\<exists>key n reply. PERPLEXITY_API_KEY env = Some key \<and> ToString env name = Inr n
                \<and> axios_post env perplexity_url (perplexity_data n) (perplexity_config key) = Inr reply)"
    using that
  proof (elim disjE exE conjE)
    assume "diag \<noteq> []"
    then show ?thesis .
  next
    assume "PERPLEXITY_API_KEY env = None"
    then have "diag = lit ''Perplexity API key is not set''"
      using missing by blast
    then show ?thesis
      by (simp add: diagnostics_not_empty)
  next
    assume "PERPLEXITY_API_KEY env = Some []"
    then have "diag = lit ''Perplexity API key is not set''"
      using missing by blast
    then show ?thesis
      by (simp add: diagnostics_not_empty)
  next
    fix key n reply
    assume k: "PERPLEXITY_API_KEY env = Some key" "ToString env name = Inr n"
      "axios_post env perplexity_url (perplexity_data n) (perplexity_config key) = Inr reply"
    show ?thesis
    proof (cases "key = []")
      case True
      with k(1) have "diag = lit ''Perplexity API key is not set''"
        using missing by blast
      then show ?thesis
        by (simp add: diagnostics_not_empty)
    next
      case False
      from replied [OF k(1) False k(2) k(3)]
      have "diag = lit ''Failed to parse JSON response from Perplexity''
              \<or> diag = not_a_function
              \<or> (\<exists>base k. base \<in> {lit ''undefined'', lit ''null''} \<and> diag = cannot_read base k)"
        by blast
      then show ?thesis
        by (elim disjE exE conjE) (simp_all add: diagnostics_not_empty)
    qed
  qed
  have unknown: "diag = lit ''An unknown error occurred''" if "e = JsThrown v" for v
    using assms(5) that by simp
  have A: "diag \<noteq> []
            \<or> PERPLEXITY_API_KEY env = None \<or> PERPLEXITY_API_KEY env = Some []
            \<or> (\<exists>key n reply. PERPLEXITY_API_KEY env = Some key \<and> ToString env name = Inr n
                  \<and> axios_post env perplexity_url (perplexity_data n) (perplexity_config key) = Inr reply)
          \<longrightarrow> diag \<noteq> []
            \<and> POST env (Inr payload) =
                (\<lparr>status = 200,
                  body = JObj [(lit ''story'', JStr []), (lit ''htmlContent'', JStr []),
                               (lit ''isMarkdown'', JBool False), (lit ''rawApiResponse'', JStr diag)]\<rparr>,
                 snd (researchCompanyWithPerplexity env name))
            \<and> GenerateText r \<notin> set (snd (POST env (Inr payload)))
            \<and> Format_story st \<notin> set (snd (POST env (Inr payload)))
            \<and> Remark_process m \<notin> set (snd (POST env (Inr payload)))"
  proof
    assume "diag \<noteq> []
            \<or> PERPLEXITY_API_KEY env = None \<or> PERPLEXITY_API_KEY env = Some []
            \<or> (\<exists>key n reply. PERPLEXITY_API_KEY env = Some key \<and> ToString env name = Inr n
                  \<and> axios_post env perplexity_url (perplexity_data n) (perplexity_config key) = Inr reply)"
    then have ne: "diag \<noteq> []"
      by (rule nonempty)
    from post [OF ne] ne quiet res
    show "diag \<noteq> []
            \<and> POST env (Inr payload) =
                (\<lparr>status = 200,
                  body = JObj [(lit ''story'', JStr []), (lit ''htmlContent'', JStr []),
                               (lit ''isMarkdown'', JBool False), (lit ''rawApiResponse'', JStr diag)]\<rparr>,
                 snd (researchCompanyWithPerplexity env name))
            \<and> GenerateText r \<notin> set (snd (POST env (Inr payload)))
            \<and> Format_story st \<notin> set (snd (POST env (Inr payload)))
            \<and> Remark_process m \<notin> set (snd (POST env (Inr payload)))"
      by simp
  qed
  have B: "PERPLEXITY_API_KEY env = None \<or> PERPLEXITY_API_KEY env = Some [] \<longrightarrow>
            diag = lit ''Perplexity API key is not set''"
    using missing by blast
  have C: "\<forall>key n reply. PERPLEXITY_API_KEY env = Some key \<and> key \<noteq> [] \<and> ToString env name = Inr n
              \<and> axios_post env perplexity_url (perplexity_data n) (perplexity_config key) = Inr reply \<longrightarrow>
            (\<forall>te. message_content reply = Inl te \<longrightarrow> e = te)
            \<and> (\<forall>text. message_content reply = Inr (JStr text) \<longrightarrow>
                  diag = lit ''Failed to parse JSON response from Perplexity'')
            \<and> (diag = lit ''Failed to parse JSON response from Perplexity''
                 \<or> diag = not_a_function
                 \<or> (\<exists>base k. base \<in> {lit ''undefined'', lit ''null''} \<and> diag = cannot_read base k))"
  proof (intro allI impI, elim conjE)
    fix key n reply
    assume "PERPLEXITY_API_KEY env = Some key" "key \<noteq> []" "ToString env name = Inr n"
      "axios_post env perplexity_url (perplexity_data n) (perplexity_config key) = Inr reply"
    then show "(\<forall>te. message_content reply = Inl te \<longrightarrow> e = te)
            \<and> (\<forall>text. message_content reply = Inr (JStr text) \<longrightarrow>
                  diag = lit ''Failed to parse JSON response from Perplexity'')
            \<and> (diag = lit ''Failed to parse JSON response from Perplexity''
                 \<or> diag = not_a_function
                 \<or> (\<exists>base k. base \<in> {lit ''undefined'', lit ''null''} \<and> diag = cannot_read base k))"
      by (rule replied)
  qed
  have D: "\<forall>v. e = JsThrown v \<longrightarrow> diag = lit ''An unknown error occurred''"
    using unknown by blast
  have E: "diag = [] \<longrightarrow>
            POST env (Inr payload) = (failure_response, snd (researchCompanyWithPerplexity env name))"
    using hard res by simp
  show ?thesis
    by (rule conjI [OF A conjI [OF B conjI [OF C conjI [OF D E]]]])
qed

theorem failed_acquisition_answers_200_with_diagnostic_witness:
  "fst (POST no_credential_world (Inr name_only_payload)) =
       \<lparr>status = 200,
        body = JObj [(lit ''story'', JStr []), (lit ''htmlContent'', JStr []),
                     (lit ''isMarkdown'', JBool False),
                     (lit ''rawApiResponse'', JStr (lit ''Perplexity API key is not set''))]\<rparr>
   \<and> fst (POST prose_reply_world (Inr name_only_payload)) =
       \<lparr>status = 200,
        body = JObj [(lit ''story'', JStr []), (lit ''htmlContent'', JStr []),
                     (lit ''isMarkdown'', JBool False),
                     (lit ''rawApiResponse'', JStr (lit ''Failed to parse JSON response from Perplexity''))]\<rparr>
   \<and> fst (POST empty_choices_world (Inr name_only_payload)) =
       \<lparr>status = 200,
        body = JObj [(lit ''story'', JStr []), (lit ''htmlContent'', JStr []),
                     (lit ''isMarkdown'', JBool False),
                     (lit ''rawApiResponse'',
                      JStr (lit ''Cannot read properties of undefined (reading '' @ [39]
                            @ lit ''message'' @ [39] @ lit '')''))]\<rparr>
   \<and> fst (POST null_body_world (Inr name_only_payload)) =
       \<lparr>status = 200,
        body = JObj [(lit ''story'', JStr []), (lit ''htmlContent'', JStr []),
                     (lit ''isMarkdown'', JBool False),
                     (lit ''rawApiResponse'',
                      JStr (lit ''Cannot read properties of null (reading '' @ [39]
                            @ lit ''choices'' @ [39] @ lit '')''))]\<rparr>"
proof -
  have a: "get_prop name_only_payload (lit ''company_name'') = Inr acme"
    "get_prop name_only_payload (lit ''company_data'') = Inr JUndefined"
    "\<not> truthy JUndefined"
    by (simp_all add: run)
  have key: "PERPLEXITY_API_KEY no_credential_world = None"
    "PERPLEXITY_API_KEY prose_reply_world = Some (lit ''pplx-key'')"
    "PERPLEXITY_API_KEY empty_choices_world = Some (lit ''pplx-key'')"
    "PERPLEXITY_API_KEY null_body_world = Some (lit ''pplx-key'')"
    by (simp_all add: run)
  have name: "ToString prose_reply_world acme = Inr (lit ''Acme'')"
    "ToString empty_choices_world acme = Inr (lit ''Acme'')"
    "ToString null_body_world acme = Inr (lit ''Acme'')"
    by (simp_all add: run)
  have reply:
    "axios_post prose_reply_world perplexity_url (perplexity_data (lit ''Acme''))
       (perplexity_config (lit ''pplx-key'')) = Inr (research_reply (lit ''Acme is a company.''))"
    "axios_post empty_choices_world perplexity_url (perplexity_data (lit ''Acme''))
       (perplexity_config (lit ''pplx-key'')) = Inr (JObj [(lit ''choices'', JArr [])])"
    "axios_post null_body_world perplexity_url (perplexity_data (lit ''Acme''))
       (perplexity_config (lit ''pplx-key'')) = Inr JNull"
    by (simp_all add: prose_reply_world_def empty_choices_world_def null_body_world_def)
  have b1: "fst (researchCompanyWithPerplexity no_credential_world acme)
             = Inl (JsError (lit ''Perplexity API key is not set''))"
    by (simp add: run)
  have b2: "fst (researchCompanyWithPerplexity prose_reply_world acme)
             = Inl (JsError (lit ''Failed to parse JSON response from Perplexity''))"
    by (simp add: run)
  have b3: "fst (researchCompanyWithPerplexity empty_choices_world acme)
             = Inl (JsError (lit ''Cannot read properties of undefined (reading '' @ [39]
                            @ lit ''message'' @ [39] @ lit '')''))"
    by (simp add: run)
  have b4: "fst (researchCompanyWithPerplexity null_body_world acme)
             = Inl (JsError (lit ''Cannot read properties of null (reading '' @ [39]
                            @ lit ''choices'' @ [39] @ lit '')''))"
    by (simp add: run)
  have c: "d = (case JsError d of JsError m \<Rightarrow> m | JsThrown v \<Rightarrow> lit ''An unknown error occurred'')"
    for d
    by simp
  from failed_acquisition_answers_200_with_diagnostic [OF a b1 c] key(1)
  have r1: "fst (POST no_credential_world (Inr name_only_payload)) =
       \<lparr>status = 200,
        body = JObj [(lit ''story'', JStr []), (lit ''htmlContent'', JStr []),
                     (lit ''isMarkdown'', JBool False),
                     (lit ''rawApiResponse'', JStr (lit ''Perplexity API key is not set''))]\<rparr>"
    by simp
  from failed_acquisition_answers_200_with_diagnostic [OF a b2 c] key(2) name(1) reply(1)
  have r2: "fst (POST prose_reply_world (Inr name_only_payload)) =
       \<lparr>status = 200,
        body = JObj [(lit ''story'', JStr []), (lit ''htmlContent'', JStr []),
                     (lit ''isMarkdown'', JBool False),
                     (lit ''rawApiResponse'', JStr (lit ''Failed to parse JSON response from Perplexity''))]\<rparr>"
    by simp
  from failed_acquisition_answers_200_with_diagnostic [OF a b3 c] key(3) name(2) reply(2)
  have r3: "fst (POST empty_choices_world (Inr name_only_payload)) =
       \<lparr>status = 200,
        body = JObj [(lit ''story'', JStr []), (lit ''htmlContent'', JStr []),
                     (lit ''isMarkdown'', JBool False),
                     (lit ''rawApiResponse'',
                      JStr (lit ''Cannot read properties of undefined (reading '' @ [39]
                            @ lit ''message'' @ [39] @ lit '')''))]\<rparr>"
    by simp
  from failed_acquisition_answers_200_with_diagnostic [OF a b4 c] key(4) name(3) reply(3)
  have r4: "fst (POST null_body_world (Inr name_only_payload)) =
       \<lparr>status = 200,
        body = JObj [(lit ''story'', JStr []), (lit ''htmlContent'', JStr []),
                     (lit ''isMarkdown'', JBool False),
                     (lit ''rawApiResponse'',
                      JStr (lit ''Cannot read properties of null (reading '' @ [39]
                            @ lit ''choices'' @ [39] @ lit '')''))]\<rparr>"
    by simp
  from r1 r2 r3 r4 show ?thesis
    by simp
qed

text \<open>
  The claim as stated fails for a transport error whose message is empty (Node's
  AggregateError, raised when every address of the host refuses the connection, has one):
  the recorded text is then falsy, line 229 takes the request for one with neither data nor
  error, and the answer is the 500.
\<close>

theorem failed_acquisition_empty_message_counterexample:
  "\<not> truthy JUndefined
   \<and> fst (researchCompanyWithPerplexity silent_failure_world acme) = Inl (JsError [])
   \<and> status (fst (POST silent_failure_world (Inr name_only_payload))) = 500
   \<and> fst (POST silent_failure_world (Inr name_only_payload)) = failure_response"
  by (simp add: run)
section \<open>Markdown detection and rendering\<close>

lemma POST_try_success:
  assumes "POST_try env req = (Inr resp, l)"
  shows "\<exists>text raw l1.
           (\<forall>m. Remark_process m \<notin> set l1)
         \<and> fst (render_response env text raw) = Inr resp
         \<and> l = l1 @ snd (render_response env text raw)"
proof -
  from assms obtain payload where p: "req = Inr payload"
    by (cases req) (auto simp: POST_try_def)
  from assms p obtain name where n: "get_prop payload (lit ''company_name'') = Inr name"
    by (cases "get_prop payload (lit ''company_name'')") (auto simp: POST_try_def)
  from assms p n obtain data where d: "get_prop payload (lit ''company_data'') = Inr data"
    by (cases "get_prop payload (lit ''company_data'')") (auto simp: POST_try_def)
  obtain rd raw l0 where acq: "acquire env name data = ((rd, raw), l0)"
    by (cases "acquire env name data") auto
  obtain r1 l1 where ws: "write_story env new_bot name rd = (r1, l1)"
    by (cases "write_story env new_bot name rd")
  from assms p ws obtain story_text where r1: "r1 = Inr story_text"
    and resp: "fst (render_response env story_text raw) = Inr resp"
    and l: "l = l0 @ l1 @ snd (render_response env story_text raw)"
    unfolding p POST_try_unfold [OF n d acq]
    by (cases r1) (auto split: if_splits)
  have "Remark_process m \<notin> set (l0 @ l1)" for m
    using acquire_events [of "Remark_process m" env name data] acq
      write_story_events [of "Remark_process m" env new_bot name rd] ws
    by auto
  with resp l show ?thesis
    by (intro exI [of _ story_text] exI [of _ raw] exI [of _ "l0 @ l1"]) simp
qed

text \<open>
  Claim C5, as the code has it. In every 200 answer \<open>isMarkdown\<close> is true exactly when
  the story text holds \<open>##\<close> or \<open>*\<close>. When it is true, the transform ran once, on the
  story, and \<open>htmlContent\<close> is what it returned; when it is false, the transform did not run
  and \<open>htmlContent\<close> is the empty string. That the returned HTML is not empty is the
  transform's matter: the handler does not look at it.
\<close>

theorem markdown_flag_and_html:
  assumes "status (fst (POST env req)) = 200"
  shows "\<exists>text html raw.
           body (fst (POST env req)) =
             JObj [(lit ''story'', JStr text), (lit ''htmlContent'', JStr html),
                   (lit ''isMarkdown'', JBool (includes_str text (lit ''##'') \<or> includes_str text (lit ''*''))),
                   (lit ''rawApiResponse'', raw)]
         \<and> (if includes_str text (lit ''##'') \<or> includes_str text (lit ''*'')
             then remark_html env text = Inr html
                  \<and> filter (\<lambda>ev. \<exists>m. ev = Remark_process m) (snd (POST env req)) = [Remark_process text]
             else html = []
                  \<and> filter (\<lambda>ev. \<exists>m. ev = Remark_process m) (snd (POST env req)) = [])"
proof -
  obtain r l where pt: "POST_try env req = (r, l)"
    by (cases "POST_try env req")
  with assms obtain resp where r: "r = Inr resp"
    by (cases r) (auto simp: POST_def failure_response_def NextResponse_json_def)
  from POST_try_success [OF pt [unfolded r]] obtain story_text raw l1 where
    quiet: "\<forall>m. Remark_process m \<notin> set l1"
    and resp: "fst (render_response env story_text raw) = Inr resp"
    and l: "l = l1 @ snd (render_response env story_text raw)"
    by blast
  have none: "filter (\<lambda>ev. \<exists>m. ev = Remark_process m) l1 = []"
    using quiet by (auto simp: filter_empty_conv)
  have post: "POST env req = (resp, l)"
    using pt r by (simp add: POST_def)
  show ?thesis
  proof (cases "includes_str story_text (lit ''##'') \<or> includes_str story_text (lit ''*'')")
    case True
    with resp obtain html where "remark_html env story_text = Inr html"
      and "resp = \<lparr>status = 200,
                   body = JObj [(lit ''story'', JStr story_text), (lit ''htmlContent'', JStr html),
                                (lit ''isMarkdown'', JBool True), (lit ''rawApiResponse'', raw)]\<rparr>"
      and "snd (render_response env story_text raw) = [Remark_process story_text]"
      by (cases "remark_html env story_text") (auto simp: render_response_eq)
    with True post l none show ?thesis
      by (intro exI [of _ story_text] exI [of _ html] exI [of _ raw]) simp
  next
    case False
    with resp have "resp = \<lparr>status = 200,
                   body = JObj [(lit ''story'', JStr story_text), (lit ''htmlContent'', JStr []),
                                (lit ''isMarkdown'', JBool False), (lit ''rawApiResponse'', raw)]\<rparr>"
      and "snd (render_response env story_text raw) = []"
      by (auto simp: render_response_eq)
    with False post l none show ?thesis
      by (intro exI [of _ story_text] exI [of _ "[]"] exI [of _ raw]) simp
  qed
qed

theorem markdown_flag_and_html_witness:
  "status (fst (POST demo_world (Inr (demo_payload demo_profile)))) = 200
   \<and> (\<exists>text html raw.
           body (fst (POST demo_world (Inr (demo_payload demo_profile)))) =
             JObj [(lit ''story'', JStr text), (lit ''htmlContent'', JStr html),
                   (lit ''isMarkdown'', JBool (includes_str text (lit ''##'') \<or> includes_str text (lit ''*''))),
                   (lit ''rawApiResponse'', raw)]
         \<and> (if includes_str text (lit ''##'') \<or> includes_str text (lit ''*'')
             then remark_html demo_world text = Inr html
                  \<and> filter (\<lambda>ev. \<exists>m. ev = Remark_process m)
                       (snd (POST demo_world (Inr (demo_payload demo_profile)))) = [Remark_process text]
             else html = []
                  \<and> filter (\<lambda>ev. \<exists>m. ev = Remark_process m)
                       (snd (POST demo_world (Inr (demo_payload demo_profile)))) = []))
   \<and> body (fst (POST demo_world (Inr (demo_payload demo_profile)))) =
       JObj [(lit ''story'', JStr (lit ''## Acme'')), (lit ''htmlContent'', JStr (lit ''<h2>Acme</h2>'')),
             (lit ''isMarkdown'', JBool True), (lit ''rawApiResponse'', JNull)]"
proof -
  have a: "status (fst (POST demo_world (Inr (demo_payload demo_profile)))) = 200"
    by (simp add: run)
  have b: "body (fst (POST demo_world (Inr (demo_payload demo_profile)))) =
       JObj [(lit ''story'', JStr (lit ''## Acme'')), (lit ''htmlContent'', JStr (lit ''<h2>Acme</h2>'')),
             (lit ''isMarkdown'', JBool True), (lit ''rawApiResponse'', JNull)]"
    by (simp add: run)
  from markdown_flag_and_html [OF a] a b show ?thesis
    by blast
qed

text \<open>
  The claim as stated promises a non-empty \<open>htmlContent\<close> whenever \<open>isMarkdown\<close> is true.
  A story that is one link reference definition holds a \<open>*\<close> and renders to nothing: the
  answer is 200 with \<open>isMarkdown\<close> true and an empty \<open>htmlContent\<close>.
\<close>

theorem markdown_empty_html_counterexample:
  "status (fst (POST definition_only_world (Inr (demo_payload demo_profile)))) = 200
   \<and> body (fst (POST definition_only_world (Inr (demo_payload demo_profile)))) =
       JObj [(lit ''story'', JStr (lit ''[*]: https://acme.example'')), (lit ''htmlContent'', JStr []),
             (lit ''isMarkdown'', JBool True), (lit ''rawApiResponse'', JNull)]
   \<and> includes_str (lit ''[*]: https://acme.example'') (lit ''*'')"
  by (simp add: run)

section \<open>Code fences around the research reply\<close>

lemma not_space_backquote: "\<not> is_space 96"
  by (simp add: is_space_def)

lemma dropWhile_space_fence:
  "dropWhile is_space (s @ fence) = dropWhile is_space s @ fence"
  by (induction s) (simp_all add: fence_def not_space_backquote)

lemma trim_dropWhile: "trim (dropWhile is_space s) = trim s"
  by (simp add: trim_def)

lemma strip_fenced_json:
  "strip_code_fences (fence @ lit ''json'' @ s @ fence) = dropWhile is_space s"
proof -
  have "length fence = 3" "length (lit ''json'') = 4"
    by (simp_all add: fence_def lit_def)
  moreover have "suffix fence (dropWhile is_space s @ fence)"
    by (simp add: suffix_def)
  ultimately show ?thesis
    by (simp add: strip_code_fences_def Let_def dropWhile_space_fence)
qed

lemma strip_fenced_plain:
  assumes "\<not> prefix (lit ''json'') s"
  shows "strip_code_fences (fence @ s @ fence) = dropWhile is_space s"
proof -
  have len: "length fence = 3" "length (lit ''json'') = 4"
    by (simp_all add: fence_def lit_def)
  have "\<not> prefix (lit ''json'') (s @ fence)"
  proof
    assume "prefix (lit ''json'') (s @ fence)"
    then have "prefix (lit ''json'') s \<or> (\<exists>us. prefix us fence \<and> lit ''json'' = s @ us)"
      by (auto simp: prefix_append)
    with assms obtain us where us: "prefix us fence" "lit ''json'' = s @ us"
      by blast
    from us(2) assms have "us \<noteq> []"
      by auto
    then have "last (lit ''json'') = last us"
      using us(2) by simp
    moreover have "last us \<in> set fence"
      using us(1) \<open>us \<noteq> []\<close> by (metis last_in_set set_mono_prefix subsetD)
    ultimately show False
      by (simp add: fence_def lit_def)
  qed
  moreover have "suffix fence (dropWhile is_space s @ fence)"
    by (simp add: suffix_def)
  ultimately show ?thesis
    using len by (simp add: strip_code_fences_def Let_def dropWhile_space_fence)
qed

lemma strip_unfenced:
  assumes "\<not> prefix fence s" and "\<not> suffix fence s"
  shows "strip_code_fences s = s"
  using assms by (simp add: strip_code_fences_def)

lemma dropWhile_keeps_no_fence:
  assumes "\<not> suffix fence s"
  shows "\<not> suffix fence (dropWhile P s)"
  using assms suffix_dropWhile [of P s] suffix_order.trans by blast

lemma strip_opening_json:
  assumes "\<not> suffix fence s"
  shows "strip_code_fences (fence @ lit ''json'' @ s) = dropWhile is_space s"
proof -
  have "length fence = 3" "length (lit ''json'') = 4"
    by (simp_all add: fence_def lit_def)
  then show ?thesis
    using dropWhile_keeps_no_fence [OF assms, of is_space]
    by (simp add: strip_code_fences_def Let_def)
qed

lemma strip_opening_plain:
  assumes "\<not> prefix (lit ''json'') s" and "\<not> suffix fence s"
  shows "strip_code_fences (fence @ s) = dropWhile is_space s"
proof -
  have "length fence = 3"
    by (simp add: fence_def)
  then show ?thesis
    using assms(1) dropWhile_keeps_no_fence [OF assms(2), of is_space]
    by (simp add: strip_code_fences_def Let_def)
qed

lemma strip_closing:
  assumes "\<not> prefix fence (s @ fence)"
  shows "strip_code_fences (s @ fence) = s"
proof -
  have "length fence = 3"
    by (simp add: fence_def)
  moreover have "suffix fence (s @ fence)"
    by (simp add: suffix_def)
  ultimately show ?thesis
    using assms by (simp add: strip_code_fences_def Let_def)
qed

text \<open>
  Claim C7. When the reply holds a text, what goes to \<open>JSON.parse\<close> is that text with the
  fences stripped and the white space trimmed: acquisition returns the parsed value, and
  fails with the parse error (no profile) when the cleaned text does not parse. The
  cleaned text is given for every text. An opening fence (three backquotes, or three
  backquotes and \<open>json\<close>) that starts the text is taken off, whether or not a closing
  fence ends the text; a closing fence (three backquotes) that ends the text is taken off,
  whether or not an opening fence starts it; what is left is trimmed; and a text with no
  fence at either end is only trimmed. So a body wrapped in such fences is parsed as the
  trimmed body, and the result is its parse.
\<close>

theorem fences_stripped_before_parsing:
  assumes "PERPLEXITY_API_KEY env = Some key" and "key \<noteq> []"
    and "ToString env name = Inr n"
    and "axios_post env perplexity_url (perplexity_data n) (perplexity_config key) = Inr reply"
    and "message_content reply = Inr (JStr text)"
  shows "fst (researchCompanyWithPerplexity env name) =
           (case JSON_parse env (trim (strip_code_fences text)) of
              Some d \<Rightarrow> Inr d
            | None \<Rightarrow> Inl (JsError (lit ''Failed to parse JSON response from Perplexity'')))
       \<and> (\<forall>s. text = fence @ lit ''json'' @ s @ fence \<longrightarrow> trim (strip_code_fences text) = trim s)
       \<and> (\<forall>s. text = fence @ s @ fence \<and> \<not> prefix (lit ''json'') s \<longrightarrow>
             trim (strip_code_fences text) = trim s)
       \<and> (\<not> prefix fence text \<and> \<not> suffix fence text \<longrightarrow> trim (strip_code_fences text) = trim text)
       \<and> (\<forall>s. text = fence @ lit ''json'' @ s \<and> \<not> suffix fence s \<longrightarrow>
             trim (strip_code_fences text) = trim s)
       \<and> (\<forall>s. text = fence @ s \<and> \<not> prefix (lit ''json'') s \<and> \<not> suffix fence s \<longrightarrow>
             trim (strip_code_fences text) = trim s)
       \<and> (\<forall>s. text = s @ fence \<and> \<not> prefix fence text \<longrightarrow> trim (strip_code_fences text) = trim s)
       \<and> (\<forall>s d. (text = fence @ lit ''json'' @ s @ fence
                  \<or> text = fence @ s @ fence \<and> \<not> prefix (lit ''json'') s)
                \<and> JSON_parse env (trim s) = Some d \<longrightarrow>
             fst (researchCompanyWithPerplexity env name) = Inr d)
       \<and> (JSON_parse env (trim (strip_code_fences text)) = None \<longrightarrow>
             fst (researchCompanyWithPerplexity env name)
               = Inl (JsError (lit ''Failed to parse JSON response from Perplexity'')))"
proof -
  note result = research_unparsable [OF assms]
  have both_json: "trim (strip_code_fences text) = trim s" if "text = fence @ lit ''json'' @ s @ fence" for s
    using that by (simp add: strip_fenced_json trim_dropWhile)
  have both_plain: "trim (strip_code_fences text) = trim s"
    if "text = fence @ s @ fence" "\<not> prefix (lit ''json'') s" for s
    using that by (simp add: strip_fenced_plain trim_dropWhile)
  have neither: "trim (strip_code_fences text) = trim text"
    if "\<not> prefix fence text" "\<not> suffix fence text"
    using that by (simp add: strip_unfenced)
  have opening_json: "trim (strip_code_fences text) = trim s"
    if "text = fence @ lit ''json'' @ s" "\<not> suffix fence s" for s
    using that by (simp add: strip_opening_json trim_dropWhile)
  have opening_plain: "trim (strip_code_fences text) = trim s"
    if "text = fence @ s" "\<not> prefix (lit ''json'') s" "\<not> suffix fence s" for s
    using that by (simp add: strip_opening_plain trim_dropWhile)
  have closing_only: "trim (strip_code_fences text) = trim s"
    if "text = s @ fence" "\<not> prefix fence text" for s
    using that by (simp add: strip_closing)
  have parsed: "fst (researchCompanyWithPerplexity env name) = Inr d"
    if "text = fence @ lit ''json'' @ s @ fence \<or> text = fence @ s @ fence \<and> \<not> prefix (lit ''json'') s"
      "JSON_parse env (trim s) = Some d" for s d
  proof -
    have "trim (strip_code_fences text) = trim s"
      using that(1) both_json both_plain by blast
    with result that(2) show ?thesis
      by simp
  qed
  have failed: "fst (researchCompanyWithPerplexity env name)
               = Inl (JsError (lit ''Failed to parse JSON response from Perplexity''))"
    if "JSON_parse env (trim (strip_code_fences text)) = None"
    using result that by simp
  from result both_json both_plain neither opening_json opening_plain closing_only parsed failed
  show ?thesis
    by blast
qed

theorem fences_stripped_before_parsing_witness:
  "message_content (research_reply (fence @ lit ''json'' @ [10] @ lit ''{}'' @ [10] @ fence))
     = Inr (JStr (fence @ lit ''json'' @ ([10] @ lit ''{}'' @ [10]) @ fence))
   \<and> trim ([10] @ lit ''{}'' @ [10]) = lit ''{}''
   \<and> fst (researchCompanyWithPerplexity demo_world acme) = Inr (JObj [])
   \<and> fst (researchCompanyWithPerplexity prose_reply_world acme)
       = Inl (JsError (lit ''Failed to parse JSON response from Perplexity''))
   \<and> trim (strip_code_fences (fence @ lit ''json'' @ [10] @ lit ''{}'')) = lit ''{}''
   \<and> fst (researchCompanyWithPerplexity lone_opening_world acme) = Inr (JObj [])
   \<and> trim (strip_code_fences (lit ''{}'' @ [10] @ fence)) = lit ''{}''
   \<and> fst (researchCompanyWithPerplexity lone_closing_world acme) = Inr (JObj [])"
proof -
  have a: "PERPLEXITY_API_KEY demo_world = Some (lit ''pplx-key'')" "lit ''pplx-key'' \<noteq> []"
    "ToString demo_world acme = Inr (lit ''Acme'')"
    by (simp_all add: run)
  have b: "axios_post demo_world perplexity_url (perplexity_data (lit ''Acme''))
             (perplexity_config (lit ''pplx-key''))
           = Inr (research_reply (fence @ lit ''json'' @ [10] @ lit ''{}'' @ [10] @ fence))"
    by (simp add: demo_world_def)
  have c: "message_content (research_reply (fence @ lit ''json'' @ [10] @ lit ''{}'' @ [10] @ fence))
     = Inr (JStr (fence @ lit ''json'' @ ([10] @ lit ''{}'' @ [10]) @ fence))"
    by (simp add: run)
  have d: "trim ([10] @ lit ''{}'' @ [10]) = lit ''{}''"
    by (simp add: run)
  have e: "JSON_parse demo_world (lit ''{}'') = Some (JObj [])"
    by (simp add: run)
  have f: "fst (researchCompanyWithPerplexity prose_reply_world acme)
       = Inl (JsError (lit ''Failed to parse JSON response from Perplexity''))"
    by (simp add: run)
  have both: "fst (researchCompanyWithPerplexity demo_world acme) = Inr (JObj [])"
    using fences_stripped_before_parsing [OF a b c] d e by simp
  have a1: "PERPLEXITY_API_KEY lone_opening_world = Some (lit ''pplx-key'')"
    "ToString lone_opening_world acme = Inr (lit ''Acme'')"
    "JSON_parse lone_opening_world (lit ''{}'') = Some (JObj [])"
    by (simp_all add: run)
  have b1: "axios_post lone_opening_world perplexity_url (perplexity_data (lit ''Acme''))
             (perplexity_config (lit ''pplx-key''))
           = Inr (research_reply (fence @ lit ''json'' @ [10] @ lit ''{}''))"
    by (simp add: lone_opening_world_def)
  have c1: "message_content (research_reply (fence @ lit ''json'' @ [10] @ lit ''{}''))
     = Inr (JStr (fence @ lit ''json'' @ ([10] @ lit ''{}'')))"
    by (simp add: run)
  have d1: "\<not> suffix fence ([10] @ lit ''{}'')" "trim ([10] @ lit ''{}'') = lit ''{}''"
    by (simp_all add: run)
  note lone1 = fences_stripped_before_parsing [OF a1(1) a(2) a1(2) b1 c1]
  from lone1 have "\<forall>s. fence @ lit ''json'' @ ([10] @ lit ''{}'') = fence @ lit ''json'' @ s \<and> \<not> suffix fence s \<longrightarrow>
             trim (strip_code_fences (fence @ lit ''json'' @ ([10] @ lit ''{}''))) = trim s"
    by blast
  from this [rule_format, of "[10] @ lit ''{}''"] d1
  have o1: "trim (strip_code_fences (fence @ lit ''json'' @ ([10] @ lit ''{}''))) = lit ''{}''"
    by simp
  from lone1 o1 a1(3)
  have o2: "fst (researchCompanyWithPerplexity lone_opening_world acme) = Inr (JObj [])"
    by simp
  have a2: "PERPLEXITY_API_KEY lone_closing_world = Some (lit ''pplx-key'')"
    "ToString lone_closing_world acme = Inr (lit ''Acme'')"
    "JSON_parse lone_closing_world (lit ''{}'') = Some (JObj [])"
    by (simp_all add: run)
  have b2: "axios_post lone_closing_world perplexity_url (perplexity_data (lit ''Acme''))
             (perplexity_config (lit ''pplx-key''))
           = Inr (research_reply (lit ''{}'' @ [10] @ fence))"
    by (simp add: lone_closing_world_def)
  have c2: "message_content (research_reply (lit ''{}'' @ [10] @ fence))
     = Inr (JStr ((lit ''{}'' @ [10]) @ fence))"
    by (simp add: run)
  have d2: "\<not> prefix fence ((lit ''{}'' @ [10]) @ fence)" "trim (lit ''{}'' @ [10]) = lit ''{}''"
    by (simp_all add: run)
  note lone2 = fences_stripped_before_parsing [OF a2(1) a(2) a2(2) b2 c2]
  from lone2 have "\<forall>s. (lit ''{}'' @ [10]) @ fence = s @ fence \<and> \<not> prefix fence ((lit ''{}'' @ [10]) @ fence) \<longrightarrow>
             trim (strip_code_fences ((lit ''{}'' @ [10]) @ fence)) = trim s"
    by blast
  from this [rule_format, of "lit ''{}'' @ [10]"] d2
  have c3: "trim (strip_code_fences ((lit ''{}'' @ [10]) @ fence)) = lit ''{}''"
    by simp
  from lone2 c3 a2(3)
  have c4: "fst (researchCompanyWithPerplexity lone_closing_world acme) = Inr (JObj [])"
    by simp
  from c d both f o1 o2 c3 c4 show ?thesis
    by simp
qed
section \<open>The template is never written\<close>

lemma new_bot_st_eq: "new_bot_st s0 = (length s0, s0 @ bot_objects (length s0))"
  by (simp add: new_bot_st_def alloc_def assign_def set_prop_def bot_objects_def nth_append
      list_update_append)

lemma prefix_assign:
  assumes "prefix s0 s" and "length s0 \<le> a"
  shows "prefix s0 (assign a k v s)"
proof -
  from assms(1) obtain zs where "s = s0 @ zs"
    by (auto simp: prefix_def)
  with assms(2) show ?thesis
    by (auto simp: assign_def list_update_append split: heap_obj.splits)
qed

lemma length_assign [simp]: "length (assign a k v s) = length s"
  by (simp add: assign_def split: heap_obj.splits)

lemma merge_into_frame:
  assumes "prefix s0 s" and "length s0 \<le> story"
  shows "prefix s0 (merge_into story k v s)"
  using assms by (auto simp: merge_into_def alloc_def intro!: prefix_assign prefix_prefix)

lemma research_company_st_frame:
  "prefix s (snd (research_company_st env this name data s))"
  by (auto simp: research_company_st_def alloc_def Let_def
      split: prod.splits sum.splits intro!: prefix_assign merge_into_frame prefix_prefix)

lemma calls_frame: "prefix s (calls env this cs s)"
proof (induction cs arbitrary: s)
  case Nil
  show ?case by simp
next
  case (Cons c cs)
  obtain n d where c: "c = (n, d)"
    by (cases c)
  have "prefix s (snd (research_company_st env this n d s))"
    by (rule research_company_st_frame)
  also have "prefix \<dots> (calls env this cs (snd (research_company_st env this n d s)))"
    by (rule Cons.IH)
  finally show ?case
    by (simp add: c)
qed

lemma bot_lookups:
  assumes "prefix (s0 @ bot_objects n) s'" and "n = length s0"
  shows "n + 9 < length s'"
    and "lookup s' n = HObj [(lit ''story_template'', Ref (n + 9))]"
    and "lookup s' (n + 1) = HArr []" and "lookup s' (n + 2) = HArr []"
    and "lookup s' (n + 3) = HObj [(lit ''market_size'', Data JNull), (lit ''key_players'', Ref (n + 1)),
            (lit ''recent_developments'', Ref (n + 2))]"
    and "lookup s' (n + 4) = HObj [(lit ''revenue'', Data JNull), (lit ''funding'', Data JNull),
            (lit ''market_share'', Data JNull), (lit ''growth_rate'', Data JNull)]"
    and "lookup s' (n + 5) = HArr []" and "lookup s' (n + 6) = HArr []"
    and "lookup s' (n + 7) = HObj [(lit ''core_offering'', Data JNull), (lit ''unit_economics'', Data JNull),
            (lit ''channels'', Ref (n + 5)), (lit ''partnerships'', Ref (n + 6))]"
    and "lookup s' (n + 8) = HArr []"
    and "lookup s' (n + 9) = HObj [(lit ''headline'', Data JNull), (lit ''context'', Ref (n + 3)),
            (lit ''metrics'', Ref (n + 4)), (lit ''business_model'', Ref (n + 7)),
            (lit ''analysis_points'', Ref (n + 8))]"
proof -
  from assms(1) obtain zs where s': "s' = s0 @ bot_objects n @ zs"
    by (auto simp: prefix_def)
  have len: "length (bot_objects m) = 10" for m
    by (simp add: bot_objects_def)
  have at: "lookup s' (n + i) = bot_objects n ! i" if "i < 10" for i
    using that by (simp add: s' assms(2) lookup_def len nth_append)
  show "n + 9 < length s'"
    by (simp add: s' assms(2) len)
  show "lookup s' n = HObj [(lit ''story_template'', Ref (n + 9))]"
    using at [of 0] by (simp add: bot_objects_def)
  show "lookup s' (n + 1) = HArr []" "lookup s' (n + 2) = HArr []"
    "lookup s' (n + 5) = HArr []" "lookup s' (n + 6) = HArr []" "lookup s' (n + 8) = HArr []"
    using at [of 1] at [of 2] at [of 5] at [of 6] at [of 8] by (simp_all add: bot_objects_def)
  show "lookup s' (n + 3) = HObj [(lit ''market_size'', Data JNull), (lit ''key_players'', Ref (n + 1)),
            (lit ''recent_developments'', Ref (n + 2))]"
    using at [of 3] by (simp add: bot_objects_def)
  show "lookup s' (n + 4) = HObj [(lit ''revenue'', Data JNull), (lit ''funding'', Data JNull),
            (lit ''market_share'', Data JNull), (lit ''growth_rate'', Data JNull)]"
    using at [of 4] by (simp add: bot_objects_def)
  show "lookup s' (n + 7) = HObj [(lit ''core_offering'', Data JNull), (lit ''unit_economics'', Data JNull),
            (lit ''channels'', Ref (n + 5)), (lit ''partnerships'', Ref (n + 6))]"
    using at [of 7] by (simp add: bot_objects_def)
  show "lookup s' (n + 9) = HObj [(lit ''headline'', Data JNull), (lit ''context'', Ref (n + 3)),
            (lit ''metrics'', Ref (n + 4)), (lit ''business_model'', Ref (n + 7)),
            (lit ''analysis_points'', Ref (n + 8))]"
    using at [of 9] by (simp add: bot_objects_def)
qed

lemma template_view:
  assumes "prefix (s0 @ bot_objects n) s'" and "n = length s0"
  shows "reify 3 s' (read s' (Ref n) (lit ''story_template'')) = story_json (story_template new_bot)"
  using bot_lookups [OF assms]
  by (simp add: read_def story_json_def new_bot_def numeral_3_eq_3 lit_def)

lemma lookup_append_old: "a < length s \<Longrightarrow> lookup (s @ ys) a = lookup s a"
  by (simp add: lookup_def nth_append)

lemma lookup_story: "lookup (s @ ob # ys) (length s) = ob"
  by (simp add: lookup_def)

lemma lookup_after: "i < length ys \<Longrightarrow> lookup (s @ ob # ys) (Suc (length s + i)) = ys ! i"
  by (simp add: lookup_def nth_append)

lemma assign_story: "assign (length s) k v (s @ HObj ps # ys) = s @ HObj (set_prop ps k v) # ys"
  by (simp add: assign_def)

lemma merge_into_story:
  assumes "map_of ps k = Some (Ref a)" and "a < length s" and "lookup s a = HObj qs"
  shows "merge_into (length s) k v (s @ HObj ps # ys) =
           s @ HObj (set_prop ps k (Ref (Suc (length s + length ys)))) # ys
             @ [HObj (spread qs (map (\<lambda>(k, x). (k, Data x)) (own_props v)))]"
proof -
  have "read (s @ HObj ps # ys) (Ref (length s)) k = Ref a"
    using assms(1) by (simp add: read_def lookup_story)
  moreover have "slot_props (s @ HObj ps # ys) (Ref a) = qs"
    using assms(2,3) by (simp add: slot_props_def lookup_append_old)
  moreover have "assign (length s) k x ((s @ HObj ps # ys) @ zs) = s @ HObj (set_prop ps k x) # ys @ zs" for x zs
    using assign_story [of s k x ps "ys @ zs"] by simp
  ultimately show ?thesis
    by (simp add: merge_into_def alloc_def slot_props_def)
qed

lemma map_of_map_value:
  "map_of (map (\<lambda>(k, x). (k, f x)) ps) k = map_option f (map_of ps k)"
  by (induction ps) auto

lemma map_spread:
  "map (\<lambda>(k, x). (k, f x)) (spread a b) =
     spread (map (\<lambda>(k, x). (k, f x)) a) (map (\<lambda>(k, x). (k, f x)) b)"
proof -
  have keep: "filter (\<lambda>(k, v). map_of (map (\<lambda>(k, x). (k, f x)) a) k = None) (map (\<lambda>(k, x). (k, f x)) b)
      = map (\<lambda>(k, x). (k, f x)) (filter (\<lambda>(k, v). map_of a k = None) b)"
    by (induction b) (auto simp: map_of_map_value)
  have over: "map (\<lambda>(k, v). (k, case map_of (map (\<lambda>(k, x). (k, f x)) b) k of Some v' \<Rightarrow> v' | None \<Rightarrow> v))
                (map (\<lambda>(k, x). (k, f x)) a)
      = map (\<lambda>(k, x). (k, f x)) (map (\<lambda>(k, v). (k, case map_of b k of Some v' \<Rightarrow> v' | None \<Rightarrow> v)) a)"
    by (induction a) (auto simp: map_of_map_value split: option.splits)
  show ?thesis
    unfolding spread_def map_append keep over ..
qed

lemma reify_data_props:
  "map ((\<lambda>(k, x). (k, reify n s x)) \<circ> (\<lambda>(k, x). (k, Data x))) ps = ps"
  by (induction ps) auto

lemma get_prop_cases:
  "(\<exists>base. \<forall>k. get_prop v k = Inl (JsError (cannot_read base k)))
   \<or> (\<forall>k. get_prop v k = Inr (field v k))"
  by (cases v) (auto simp add: field_def)

text \<open>
  On a bot made by the constructor, in any later store, the call on the store computes what
  \<open>research_company\<close> computes from the constructor's defaults: the same result and
  events, and a story object that reads as the same story.
\<close>

lemma research_company_st_refines:
  assumes pre: "prefix (s0 @ bot_objects n) s'" and n: "n = length s0"
  shows "case research_company env new_bot name data of
           (Inl e, l) \<Rightarrow> fst (research_company_st env n name data s') = (Inl e, l)
         | (Inr st, l) \<Rightarrow>
             fst (research_company_st env n name data s') = (Inr (length s'), l)
           \<and> reify 3 (snd (research_company_st env n name data s')) (Ref (length s')) = story_json st"
proof -
  note L = bot_lookups [OF pre n]
  define p where "p = length s'"
  have lt: "n + 1 < p" "n + 2 < p" "n + 3 < p" "n + 4 < p" "n + 5 < p" "n + 6 < p" "n + 7 < p" "n + 9 < p"
    using L(1) by (simp_all add: p_def)
  define T where "T = [(lit ''headline'', Data JNull), (lit ''context'', Ref (n + 3)),
            (lit ''metrics'', Ref (n + 4)), (lit ''business_model'', Ref (n + 7)),
            (lit ''analysis_points'', Ref (n + 8))]"
  have copy: "alloc (HObj (slot_props s' (read s' (Ref n) (lit ''story_template'')))) s'
                = (p, s' @ [HObj T])"
    using L by (simp add: alloc_def read_def slot_props_def T_def p_def)
  obtain r l where g: "generate_hook env name = (r, l)"
    by (cases "generate_hook env name")
  show ?thesis
  proof (cases r)
    case (Inl e)
    with g copy show ?thesis
      by (simp add: research_company_def research_company_st_def Let_def)
  next
    case (Inr h)
    from get_prop_cases [of data] show ?thesis
    proof
      assume "\<exists>base. \<forall>k. get_prop data k = Inl (JsError (cannot_read base k))"
      then obtain base where bad: "\<forall>k. get_prop data k = Inl (JsError (cannot_read base k))"
        by blast
      have "research_company env new_bot name data
              = (Inl (JsError (cannot_read base (lit ''metrics''))), l)"
        using g Inr bad by (simp add: research_company_def Let_def)
      moreover have "fst (research_company_st env n name data s')
              = (Inl (JsError (cannot_read base (lit ''metrics''))), l)"
        using g Inr bad copy by (simp add: research_company_st_def Let_def)
      ultimately show ?thesis
        by simp
    next
      assume good: "\<forall>k. get_prop data k = Inr (field data k)"
      define m where "m = field data (lit ''metrics'')"
      define b where "b = field data (lit ''business_model'')"
      define c where "c = field data (lit ''context'')"
      define a where "a = field data (lit ''analysis_points'')"
      define st where "st = (story_template new_bot)\<lparr>
        headline := JStr h,
        metrics := JObj (spread (own_props (metrics (story_template new_bot))) (own_props m)),
        business_model := JObj (spread (own_props (business_model (story_template new_bot))) (own_props b)),
        context' := JObj (spread (own_props (context' (story_template new_bot))) (own_props c)),
        analysis_points := (if truthy a then a else JArr [])\<rparr>"
      have pure: "research_company env new_bot name data = (Inr st, l)"
        using g Inr good by (simp add: research_company_def Let_def ret_def st_def m_def b_def c_def a_def)
      define s2 where "s2 = assign p (lit ''headline'') (Data (JStr h)) (s' @ [HObj T])"
      define s3 where "s3 = merge_into p (lit ''metrics'') m s2"
      define s4 where "s4 = merge_into p (lit ''business_model'') b s3"
      define s5 where "s5 = merge_into p (lit ''context'') c s4"
      define s6 where "s6 = (if truthy a then assign p (lit ''analysis_points'') (Data a) s5
                             else assign p (lit ''analysis_points'') (Ref (length s5)) (s5 @ [HArr []]))"
      have ran: "research_company_st env n name data s' = ((Inr p, l), s6)"
        using g Inr good copy
        by (simp add: research_company_st_def Let_def alloc_def s2_def s3_def s4_def s5_def s6_def
            m_def b_def c_def a_def)
      define MO where "MO = HObj (spread [(lit ''revenue'', Data JNull), (lit ''funding'', Data JNull),
            (lit ''market_share'', Data JNull), (lit ''growth_rate'', Data JNull)]
            (map (\<lambda>(k, x). (k, Data x)) (own_props m)))"
      define BO where "BO = HObj (spread [(lit ''core_offering'', Data JNull), (lit ''unit_economics'', Data JNull),
            (lit ''channels'', Ref (n + 5)), (lit ''partnerships'', Ref (n + 6))]
            (map (\<lambda>(k, x). (k, Data x)) (own_props b)))"
      define CO where "CO = HObj (spread [(lit ''market_size'', Data JNull), (lit ''key_players'', Ref (n + 1)),
            (lit ''recent_developments'', Ref (n + 2))]
            (map (\<lambda>(k, x). (k, Data x)) (own_props c)))"
      have e2: "s2 = s' @ [HObj [(lit ''headline'', Data (JStr h)), (lit ''context'', Ref (n + 3)),
            (lit ''metrics'', Ref (n + 4)), (lit ''business_model'', Ref (n + 7)),
            (lit ''analysis_points'', Ref (n + 8))]]"
        unfolding s2_def p_def assign_story by (simp add: T_def set_prop_def lit_def)
      have e3: "s3 = s' @ [HObj [(lit ''headline'', Data (JStr h)), (lit ''context'', Ref (n + 3)),
            (lit ''metrics'', Ref (Suc p)), (lit ''business_model'', Ref (n + 7)),
            (lit ''analysis_points'', Ref (n + 8))], MO]"
        unfolding s3_def e2 p_def
        by (subst merge_into_story [where a = "n + 4", OF _ _ L(6)])
           (use lt in \<open>simp_all add: set_prop_def lit_def MO_def p_def\<close>)
      have e4: "s4 = s' @ [HObj [(lit ''headline'', Data (JStr h)), (lit ''context'', Ref (n + 3)),
            (lit ''metrics'', Ref (Suc p)), (lit ''business_model'', Ref (Suc (Suc p))),
            (lit ''analysis_points'', Ref (n + 8))], MO, BO]"
        unfolding s4_def e3 p_def
        by (subst merge_into_story [where a = "n + 7", OF _ _ L(9)])
           (use lt in \<open>simp_all add: set_prop_def lit_def BO_def p_def\<close>)
      have e5: "s5 = s' @ [HObj [(lit ''headline'', Data (JStr h)), (lit ''context'', Ref (Suc (Suc (Suc p)))),
            (lit ''metrics'', Ref (Suc p)), (lit ''business_model'', Ref (Suc (Suc p))),
            (lit ''analysis_points'', Ref (n + 8))], MO, BO, CO]"
        unfolding s5_def e4 p_def
        by (subst merge_into_story [where a = "n + 3", OF _ _ L(5)])
           (use lt in \<open>simp_all add: set_prop_def lit_def CO_def p_def\<close>)
      have e6: "s6 = s' @ [HObj [(lit ''headline'', Data (JStr h)), (lit ''context'', Ref (Suc (Suc (Suc p)))),
            (lit ''metrics'', Ref (Suc p)), (lit ''business_model'', Ref (Suc (Suc p))),
            (lit ''analysis_points'', if truthy a then Data a else Ref (p + 4))], MO, BO, CO]
            @ (if truthy a then [] else [HArr []])"
      proof (cases "truthy a")
        case True
        then show ?thesis
          unfolding s6_def e5 p_def assign_story by (simp add: set_prop_def lit_def)
      next
        case False
        then show ?thesis
          unfolding s6_def e5 p_def by (simp add: assign_story set_prop_def lit_def)
      qed
      have old: "lookup s6 (n + i) = lookup s' (n + i)" if "i < 10" for i
        unfolding e6 using L(1) that by (simp add: lookup_append_old)
      have arrays: "reify 1 s6 (Ref (n + 1)) = JArr []" "reify 1 s6 (Ref (n + 2)) = JArr []"
        "reify 1 s6 (Ref (n + 5)) = JArr []" "reify 1 s6 (Ref (n + 6)) = JArr []"
        using old [of 1] old [of 2] old [of 5] old [of 6] L by simp_all
      have story: "lookup s6 p = HObj [(lit ''headline'', Data (JStr h)), (lit ''context'', Ref (Suc (Suc (Suc p)))),
            (lit ''metrics'', Ref (Suc p)), (lit ''business_model'', Ref (Suc (Suc p))),
            (lit ''analysis_points'', if truthy a then Data a else Ref (p + 4))]"
        unfolding e6 p_def by (simp add: lookup_story)
      have merged: "lookup s6 (Suc p) = MO" "lookup s6 (Suc (Suc p)) = BO" "lookup s6 (Suc (Suc (Suc p))) = CO"
        unfolding e6 p_def by (simp_all add: lookup_def nth_append)
      have fresh: "\<not> truthy a \<Longrightarrow> lookup s6 (p + 4) = HArr []"
        unfolding e6 p_def by (simp add: lookup_def nth_append)
      have view: "reify 3 s6 (Ref p) = story_json st"
        using story merged fresh arrays
        apply (simp add: numeral_3_eq_3 story_json_def st_def new_bot_def MO_def BO_def CO_def
            map_spread reify_data_props)
        done
      from pure ran view show ?thesis
        by (simp add: p_def)
    qed
  qed
qed

text \<open>
  Claim C10. A call of \<open>research_company\<close> leaves every object that existed before it
  as it was: it writes only to the copy and to objects it has just made. So for a bot made
  by the constructor, after any number of calls the bot, its template and the template's
  nested objects and arrays are the objects the constructor made, the template still reads
  as the defaults (\<open>null\<close> headline and fields, empty lists), and the next call computes
  its story from those defaults, as the first one did.
\<close>

theorem template_never_mutated:
  assumes "new_bot_st s0 = (this, s)"
  shows "prefix s1 (snd (research_company_st env t name data s1))
       \<and> prefix s (calls env this cs s)
       \<and> reify 3 (calls env this cs s) (read (calls env this cs s) (Ref this) (lit ''story_template''))
           = story_json (story_template new_bot)
       \<and> (case research_company env new_bot name data of
            (Inl e, l) \<Rightarrow>
              fst (research_company_st env this name data (calls env this cs s)) = (Inl e, l)
          | (Inr st, l) \<Rightarrow>
              fst (research_company_st env this name data (calls env this cs s))
                = (Inr (length (calls env this cs s)), l)
            \<and> reify 3 (snd (research_company_st env this name data (calls env this cs s)))
                  (Ref (length (calls env this cs s))) = story_json st)"
proof -
  from assms have at: "this = length s0" and s: "s = s0 @ bot_objects (length s0)"
    by (auto simp: new_bot_st_eq)
  have later: "prefix (s0 @ bot_objects this) (calls env this cs s)"
    using calls_frame [of s env this cs] by (simp add: s at)
  from research_company_st_frame [of s1 env t name data] calls_frame [of s env this cs]
    template_view [OF later at] research_company_st_refines [OF later at, of env name data]
  show ?thesis
    by blast
qed

theorem template_never_mutated_witness:
  "new_bot_st [] = (0, bot_objects 0)
   \<and> prefix (bot_objects 0) (calls demo_world 0 [(acme, demo_profile), (acme, JNull)] (bot_objects 0))
   \<and> reify 3 (calls demo_world 0 [(acme, demo_profile), (acme, JNull)] (bot_objects 0))
        (read (calls demo_world 0 [(acme, demo_profile), (acme, JNull)] (bot_objects 0)) (Ref 0)
           (lit ''story_template''))
       = story_json (story_template new_bot)
   \<and> reify 3 (snd (research_company_st demo_world 0 acme demo_profile
                      (calls demo_world 0 [(acme, demo_profile), (acme, JNull)] (bot_objects 0))))
        (Ref (length (calls demo_world 0 [(acme, demo_profile), (acme, JNull)] (bot_objects 0))))
       = story_json demo_story"
proof -
  have a: "new_bot_st [] = (0, bot_objects 0)"
    by (simp add: new_bot_st_eq)
  have b: "research_company demo_world new_bot acme demo_profile
             = (Inr demo_story, [GenerateText (hook_request (lit ''Acme''))])"
    by (simp add: run)
  from template_never_mutated [where env = demo_world and name = acme and data = demo_profile
      and cs = "[(acme, demo_profile), (acme, JNull)]", OF a] a b
  show ?thesis
    by simp
qed

section \<open>Formatting an amount\<close>


lemma bit_length_upper: "0 \<le> n \<Longrightarrow> n < 2 ^ bit_length n"
proof (induction n rule: bit_length.induct)
  case (1 n)
  show ?case
  proof (cases "n \<le> 0")
    case True
    then show ?thesis using 1(2) by (simp add: bit_length.simps [of n])
  next
    case False
    then have "n div 2 < 2 ^ bit_length (n div 2)" using 1 by simp
    then have "n < 2 * 2 ^ bit_length (n div 2)" by linarith
    then show ?thesis using False by (simp add: bit_length.simps [of n])
  qed
qed

















end
